theory Spec2Isabelle
  imports Main
begin

section \<open>The RL-training example of OpenSandbox (examples/rl-training/main.py)\<close>

text \<open>
  The script drives a remote sandbox through the OpenSandbox SDK: it creates a sandbox,
  writes two files into it, runs shell commands from ordered fallback lists, runs the
  training script and reads a summary file back.  The SDK is not part of the script; it
  is a parameter of the model (a record of operations over an arbitrary SDK state
  \<open>'s\<close>).  Every awaited SDK call is logged as an event of a trace, in the order in
  which the script makes the calls, together with every line the script prints.
\<close>

subsection \<open>Strings: the pieces of Python's \<open>str\<close> and \<open>textwrap\<close> that the script uses\<close>

text \<open>\<open>text.split("\n")\<close> and \<open>"\n".join(lines)\<close>.\<close>

fun split_lines :: "string \<Rightarrow> string list" where
  "split_lines [] = [[]]"
| "split_lines (c # cs) =
     (if c = CHR 0x0A then [] # split_lines cs
      else (case split_lines cs of [] \<Rightarrow> [[c]] | l # ls \<Rightarrow> (c # l) # ls))"

fun join_lines :: "string list \<Rightarrow> string" where
  "join_lines [] = []"
| "join_lines [l] = l"
| "join_lines (l # ls) = l @ CHR 0x0A # join_lines ls"

text \<open>\<open>s.startswith(p)\<close>.\<close>

fun startswith :: "string \<Rightarrow> string \<Rightarrow> bool" where
  "startswith s [] = True"
| "startswith [] (p # ps) = False"
| "startswith (c # cs) (p # ps) = (c = p \<and> startswith cs ps)"

text \<open>The number of positions of \<open>s\<close> at which \<open>sub\<close> starts.\<close>

fun occurrences :: "string \<Rightarrow> string \<Rightarrow> nat" where
  "occurrences sub [] = (if sub = [] then 1 else 0)"
| "occurrences sub (c # cs) = (if startswith (c # cs) sub then 1 else 0) + occurrences sub cs"

text \<open>
  \<open>textwrap.dedent\<close> of the standard library: a line of blanks and tabs only becomes
  empty; the margin is the longest run of blanks and tabs that starts every other line;
  the margin is removed from the lines that start with it.
\<close>

definition is_blank :: "char \<Rightarrow> bool" where
  "is_blank c = (c = CHR '' '' \<or> c = CHR 0x09)"

fun common_prefix :: "string \<Rightarrow> string \<Rightarrow> string" where
  "common_prefix (x # xs) (y # ys) = (if x = y then x # common_prefix xs ys else [])"
| "common_prefix _ _ = []"

definition dedent :: "string \<Rightarrow> string" where
  "dedent txt =
     (let lines = map (\<lambda>l. if list_all is_blank l then [] else l) (split_lines txt);
          indents = map (takeWhile is_blank) (filter (\<lambda>l. l \<noteq> []) lines);
          margin = (case indents of [] \<Rightarrow> [] | i # rest \<Rightarrow> foldl common_prefix i rest)
      in join_lines (map (\<lambda>l. if startswith l margin then drop (length margin) l else l) lines))"

text \<open>\<open>s.lstrip()\<close> on ASCII text, which the literal of the script is: the leading white
  space of \<open>s\<close> is dropped (the ASCII characters for which \<open>str.isspace\<close> holds).\<close>

definition is_space :: "char \<Rightarrow> bool" where
  "is_space c = (c \<in> set [CHR '' '', CHR 0x09, CHR 0x0A, CHR 0x0B, CHR 0x0C, CHR 0x0D,
                            CHR 0x1C, CHR 0x1D, CHR 0x1E, CHR 0x1F])"

definition lstrip :: "string \<Rightarrow> string" where
  "lstrip s = dropWhile is_space s"

subsection \<open>The host process\<close>

text \<open>
  What an SDK call or the host's file system can raise, with the text that \<open>str(exc)\<close>
  gives: \<open>Exception m\<close> is an instance of the class \<open>Exception\<close>, the class that the only
  handler of the script names (line 173); \<open>BaseException m\<close> is an instance of
  \<open>BaseException\<close> outside \<open>Exception\<close>, such as \<open>asyncio.CancelledError\<close> at an \<open>await\<close> of
  a cancelled task, or \<open>KeyboardInterrupt\<close>.
\<close>

datatype py_exception = Exception string | BaseException string

fun str :: "py_exception \<Rightarrow> string" where
  "str (Exception m) = m"
| "str (BaseException m) = m"

text \<open>
  What the script reads from its own process: \<open>os.environ\<close>, and the file
  \<open>requirements.txt\<close> beside \<open>main.py\<close> (its text, or the exception of the read).
\<close>

record host =
  environ :: "string \<rightharpoonup> string"
  requirements_file :: "py_exception + string"

text \<open>\<open>os.getenv(name, default)\<close>.\<close>

definition getenv :: "host \<Rightarrow> string \<Rightarrow> string \<Rightarrow> string" where
  "getenv h name dflt = (case environ h name of None \<Rightarrow> dflt | Some v \<Rightarrow> v)"

text \<open>\<open>_load_requirements\<close>, lines 25-27.\<close>

definition load_requirements :: "host \<Rightarrow> py_exception + string" where
  "load_requirements h = requirements_file h"

subsection \<open>The generated training script\<close>

text \<open>
  The triple-quoted literal of \<open>_training_script\<close>, lines 32-75: it starts with a line
  break, every line of the script is indented by eight blanks (the arguments of \<open>DQN\<close>
  and the entries of \<open>summary\<close> by twelve), and it ends with the eight blanks in front of
  the closing quotes.
\<close>

definition template :: string where
  \<open>template = join_lines
    ['''',
     ''        import json'',
     ''        import os'',
     '''',
     ''        import gymnasium as gym'',
     ''        from stable_baselines3 import DQN'',
     ''        from stable_baselines3.common.evaluation import evaluate_policy'',
     '''',
     ''        timesteps = int(os.getenv("RL_TIMESTEPS", "5000"))'',
     ''        tensorboard_log = os.getenv("RL_TENSORBOARD_LOG", "runs")'',
     '''',
     ''        env = gym.make("CartPole-v1")'',
     ''        model = DQN('',
     ''            "MlpPolicy",'',
     ''            env,'',
     ''            verbose=1,'',
     ''            tensorboard_log=tensorboard_log,'',
     ''            learning_rate=1e-3,'',
     ''            buffer_size=10000,'',
     ''            learning_starts=1000,'',
     ''            batch_size=32,'',
     ''            train_freq=4,'',
     ''            gradient_steps=1,'',
     ''        )'',
     '''',
     ''        model.learn(total_timesteps=timesteps)'',
     '''',
     ''        os.makedirs("checkpoints", exist_ok=True)'',
     ''        checkpoint_path = "checkpoints/cartpole_dqn"'',
     ''        model.save(checkpoint_path)'',
     '''',
     ''        mean_reward, std_reward = evaluate_policy(model, env, n_eval_episodes=5)'',
     ''        summary = {'',
     ''            "timesteps": timesteps,'',
     ''            "mean_reward": float(mean_reward),'',
     ''            "std_reward": float(std_reward),'',
     ''            "checkpoint_path": f"{checkpoint_path}.zip",'',
     ''        }'',
     ''        with open("training_summary.json", "w", encoding="utf-8") as handle:'',
     ''            json.dump(summary, handle, indent=2)'',
     '''',
     ''        print("Training summary:", summary)'',
     ''        env.close()'',
     ''        '']\<close>

text \<open>
  \<open>_training_script\<close>, lines 30-76.  The function takes no argument; the host is passed
  to the model because a Python function can read the environment of its process.  This
  one does not.
\<close>

definition training_script :: "host \<Rightarrow> string" where
  "training_script h = lstrip (dedent template)"

text \<open>The lines of the text that \<open>_training_script\<close> returns (see \<open>training_script_text\<close>).\<close>

definition script_lines :: "string list" where
  \<open>script_lines =
    [''import json'',
     ''import os'',
     '''',
     ''import gymnasium as gym'',
     ''from stable_baselines3 import DQN'',
     ''from stable_baselines3.common.evaluation import evaluate_policy'',
     '''',
     ''timesteps = int(os.getenv("RL_TIMESTEPS", "5000"))'',
     ''tensorboard_log = os.getenv("RL_TENSORBOARD_LOG", "runs")'',
     '''',
     ''env = gym.make("CartPole-v1")'',
     ''model = DQN('',
     ''    "MlpPolicy",'',
     ''    env,'',
     ''    verbose=1,'',
     ''    tensorboard_log=tensorboard_log,'',
     ''    learning_rate=1e-3,'',
     ''    buffer_size=10000,'',
     ''    learning_starts=1000,'',
     ''    batch_size=32,'',
     ''    train_freq=4,'',
     ''    gradient_steps=1,'',
     '')'',
     '''',
     ''model.learn(total_timesteps=timesteps)'',
     '''',
     ''os.makedirs("checkpoints", exist_ok=True)'',
     ''checkpoint_path = "checkpoints/cartpole_dqn"'',
     ''model.save(checkpoint_path)'',
     '''',
     ''mean_reward, std_reward = evaluate_policy(model, env, n_eval_episodes=5)'',
     ''summary = {'',
     ''    "timesteps": timesteps,'',
     ''    "mean_reward": float(mean_reward),'',
     ''    "std_reward": float(std_reward),'',
     ''    "checkpoint_path": f"{checkpoint_path}.zip",'',
     ''}'',
     ''with open("training_summary.json", "w", encoding="utf-8") as handle:'',
     ''    json.dump(summary, handle, indent=2)'',
     '''',
     ''print("Training summary:", summary)'',
     ''env.close()'',
     '''']\<close>

text \<open>
  The script "embeds the default \<open>d\<close> for the variable \<open>var\<close>" when its text holds the
  call \<open>os.getenv("var", "d")\<close>.
\<close>

definition embeds_default :: "string \<Rightarrow> string \<Rightarrow> string \<Rightarrow> bool" where
  \<open>embeds_default var d script =
     (0 < occurrences (''os.getenv("'' @ var @ ''", "'' @ d @ ''")'') script)\<close>

subsection \<open>The collaborator: execution results, the SDK, the trace\<close>

text \<open>
  The result of a command run: \<open>execution.logs.stdout\<close> and \<open>execution.logs.stderr\<close> are
  lists of messages with a \<open>text\<close>; \<open>execution.error\<close> is \<open>None\<close> or a record with a
  \<open>name\<close> and a \<open>value\<close>.
\<close>

record output_message =
  msg_text :: string

record execution_logs =
  stdout :: "output_message list"
  stderr :: "output_message list"

record execution_error =
  error_name :: string
  error_value :: string

record execution =
  logs :: execution_logs
  error :: "execution_error option"

text \<open>\<open>timedelta(minutes=n)\<close> and \<open>ConnectionConfig(domain, api_key, request_timeout)\<close>.\<close>

datatype timedelta = Minutes nat

record connection_config =
  domain :: string
  api_key :: "string option"
  request_timeout :: timedelta

text \<open>
  What the script does to the outside, in order: the calls of the SDK (with their
  arguments) and the lines it prints.  \<open>ScopeEnter\<close> and \<open>ScopeExit\<close> are the two ends of
  \<open>async with sandbox\<close>.
\<close>

datatype event =
    Create string connection_config "(string \<times> string) list"
  | ScopeEnter
  | ScopeExit
  | WriteFile string string
  | Run string
  | ReadFile string
  | Kill
  | Print string

text \<open>
  The SDK, over its own state \<open>'s\<close> (the service, the sandbox and its files).  The
  operations that the script calls by name return a value or raise; entering and leaving
  the scope of \<open>async with\<close> change the state, complete normally and let an exception of
  the body pass.
\<close>

record 's sdk =
  create_op :: "string \<Rightarrow> connection_config \<Rightarrow> (string \<times> string) list \<Rightarrow> 's
                  \<Rightarrow> (py_exception + unit) \<times> 's"
  aenter_op :: "'s \<Rightarrow> 's"
  aexit_op :: "'s \<Rightarrow> 's"
  write_file_op :: "string \<Rightarrow> string \<Rightarrow> 's \<Rightarrow> (py_exception + unit) \<times> 's"
  run_op :: "string \<Rightarrow> 's \<Rightarrow> (py_exception + execution) \<times> 's"
  read_file_op :: "string \<Rightarrow> 's \<Rightarrow> (py_exception + string) \<times> 's"
  kill_op :: "'s \<Rightarrow> (py_exception + unit) \<times> 's"

record 's world =
  sb :: 's
  trace :: "event list"

definition emit :: "event \<Rightarrow> 's world \<Rightarrow> 's world" where
  "emit ev w = w\<lparr>trace := trace w @ [ev]\<rparr>"

text \<open>An awaited call of the SDK: the call is logged, the SDK answers and moves on.\<close>

definition call :: "('s \<Rightarrow> 'r \<times> 's) \<Rightarrow> event \<Rightarrow> 's world \<Rightarrow> 'r \<times> 's world" where
  "call op ev w = (case op (sb w) of (r, s') \<Rightarrow> (r, \<lparr>sb = s', trace = trace w @ [ev]\<rparr>))"

definition sandbox_create ::
  "'s sdk \<Rightarrow> string \<Rightarrow> connection_config \<Rightarrow> (string \<times> string) list \<Rightarrow> 's world
     \<Rightarrow> (py_exception + unit) \<times> 's world" where
  "sandbox_create k img config env = call (create_op k img config env) (Create img config env)"

definition scope_enter :: "'s sdk \<Rightarrow> 's world \<Rightarrow> 's world" where
  "scope_enter k w = \<lparr>sb = aenter_op k (sb w), trace = trace w @ [ScopeEnter]\<rparr>"

definition scope_exit :: "'s sdk \<Rightarrow> 's world \<Rightarrow> 's world" where
  "scope_exit k w = \<lparr>sb = aexit_op k (sb w), trace = trace w @ [ScopeExit]\<rparr>"

definition files_write_file ::
  "'s sdk \<Rightarrow> string \<Rightarrow> string \<Rightarrow> 's world \<Rightarrow> (py_exception + unit) \<times> 's world" where
  "files_write_file k path content = call (write_file_op k path content) (WriteFile path content)"

definition commands_run ::
  "'s sdk \<Rightarrow> string \<Rightarrow> 's world \<Rightarrow> (py_exception + execution) \<times> 's world" where
  "commands_run k command = call (run_op k command) (Run command)"

definition files_read_file ::
  "'s sdk \<Rightarrow> string \<Rightarrow> 's world \<Rightarrow> (py_exception + string) \<times> 's world" where
  "files_read_file k path = call (read_file_op k path) (ReadFile path)"

definition sandbox_kill :: "'s sdk \<Rightarrow> 's world \<Rightarrow> (py_exception + unit) \<times> 's world" where
  "sandbox_kill k = call (kill_op k) Kill"

text \<open>\<open>print(s)\<close>.\<close>

definition py_print :: "string \<Rightarrow> 's world \<Rightarrow> 's world" where
  "py_print s = emit (Print s)"

subsection \<open>The helpers of the script\<close>

text \<open>
  \<open>_print_execution_logs\<close>, lines 79-85: the two loops over the messages, then the error
  when there is one (an error record is an object, so \<open>if execution.error\<close> asks whether
  it is \<open>None\<close>).
\<close>

definition print_execution_logs :: "execution \<Rightarrow> 's world \<Rightarrow> 's world" where
  "print_execution_logs execution w =
     (let w1 = foldl (\<lambda>w msg. py_print (''[stdout] '' @ msg_text msg) w) w
                 (stdout (logs execution));
          w2 = foldl (\<lambda>w msg. py_print (''[stderr] '' @ msg_text msg) w) w1
                 (stderr (logs execution))
      in case error execution of
           None \<Rightarrow> w2
         | Some err \<Rightarrow> py_print (''[error] '' @ error_name err @ '': '' @ error_value err) w2)"

text \<open>\<open>_execution_failed\<close>, lines 88-89.\<close>

definition execution_failed :: "execution \<Rightarrow> bool" where
  "execution_failed execution = (error execution \<noteq> None)"

text \<open>\<open>_run_command\<close>, lines 92-95.\<close>

definition run_command :: "'s sdk \<Rightarrow> string \<Rightarrow> 's world \<Rightarrow> (py_exception + bool) \<times> 's world" where
  "run_command k command w =
     (case commands_run k command w of
        (Inl exc, w1) \<Rightarrow> (Inl exc, w1)
      | (Inr execution, w1) \<Rightarrow>
          (Inr (\<not> execution_failed execution), print_execution_logs execution w1))"

text \<open>\<open>_with_python_env\<close>, lines 98-106.\<close>

definition with_python_env :: "string \<Rightarrow> string" where
  \<open>with_python_env command =
     ''bash -lc '' @ [CHR 0x27]
     @ ''source /opt/opensandbox/code-interpreter-env.sh ''
     @ ''python ${PYTHON_VERSION:-3.14} >/dev/null ''
     @ ''&& ''
     @ command
     @ [CHR 0x27]\<close>

text \<open>
  The loop that \<open>_ensure_pip\<close> (lines 116-119) and \<open>_install_requirements\<close> (lines
  130-133) share word for word:
  \<^verbatim>\<open>for command in commands:
      if await _run_command(sandbox, command):
          return True
  return False\<close>
\<close>

fun for_command :: "'s sdk \<Rightarrow> string list \<Rightarrow> 's world \<Rightarrow> (py_exception + bool) \<times> 's world" where
  "for_command k [] w = (Inr False, w)"
| "for_command k (command # rest) w =
     (case run_command k command w of
        (Inl exc, w1) \<Rightarrow> (Inl exc, w1)
      | (Inr ok, w1) \<Rightarrow> if ok then (Inr True, w1) else for_command k rest w1)"

text \<open>\<open>_ensure_pip\<close>, lines 109-119.\<close>

definition bootstrap_commands :: "string list" where
  "bootstrap_commands =
     [with_python_env ''python3 -m pip --version'',
      with_python_env ''python3 -m ensurepip --upgrade'',
      ''apt-get update && apt-get install -y python3-pip'',
      ''apk add --no-cache py3-pip'']"

definition ensure_pip :: "'s sdk \<Rightarrow> 's world \<Rightarrow> (py_exception + bool) \<times> 's world" where
  "ensure_pip k w = for_command k bootstrap_commands w"

text \<open>\<open>_install_requirements\<close>, lines 122-133.\<close>

definition install_commands :: "string list" where
  "install_commands =
     [with_python_env
        ''python3 -m pip install --no-cache-dir --break-system-packages -r requirements.txt'',
      ''pip3 install --no-cache-dir -r requirements.txt'',
      ''pip install --no-cache-dir -r requirements.txt'']"

definition install_requirements :: "'s sdk \<Rightarrow> 's world \<Rightarrow> (py_exception + bool) \<times> 's world" where
  "install_requirements k w = for_command k install_commands w"

subsection \<open>\<open>main\<close>\<close>

text \<open>Lines 137-152: the arguments of \<open>Sandbox.create\<close>.\<close>

definition sandbox_image :: "host \<Rightarrow> string" where
  "sandbox_image h = getenv h ''SANDBOX_IMAGE'' ''opensandbox/code-interpreter:latest''"

definition config_of :: "host \<Rightarrow> connection_config" where
  "config_of h =
     \<lparr>domain = getenv h ''SANDBOX_DOMAIN'' ''localhost:8080'',
      api_key = environ h ''SANDBOX_API_KEY'',
      request_timeout = Minutes 10\<rparr>"

definition sandbox_env :: "host \<Rightarrow> (string \<times> string) list" where
  "sandbox_env h = [(''RL_TIMESTEPS'', getenv h ''RL_TIMESTEPS'' ''5000'')]"

text \<open>The command of line 165.\<close>

definition train_command :: string where
  "train_command = with_python_env ''python3 train.py''"

text \<open>
  Lines 155-179, the body of \<open>async with sandbox\<close>.  \<open>Inr ()\<close> is a body that has
  returned or run to its end, \<open>Inl exc\<close> one that an exception has left.  Line 155
  evaluates \<open>_load_requirements()\<close> before it calls \<open>write_file\<close>.  The handler of lines
  171-177 is \<open>except Exception\<close>: it takes the instances of \<open>Exception\<close> and lets every
  other exception of the read leave the body; after the handler or the \<open>else\<close> branch the
  body goes on to \<open>sandbox.kill()\<close>.
\<close>

definition main_body :: "'s sdk \<Rightarrow> host \<Rightarrow> 's world \<Rightarrow> (py_exception + unit) \<times> 's world" where
  "main_body k h w0 =
     (case load_requirements h of
        Inl exc \<Rightarrow> (Inl exc, w0)
      | Inr requirements \<Rightarrow>
     (case files_write_file k ''requirements.txt'' requirements w0 of
        (Inl exc, w1) \<Rightarrow> (Inl exc, w1)
      | (Inr _, w1) \<Rightarrow>
     (case ensure_pip k w1 of
        (Inl exc, w2) \<Rightarrow> (Inl exc, w2)
      | (Inr pip_ok, w2) \<Rightarrow>
     if \<not> pip_ok then (Inr (), py_print ''Failed to bootstrap pip inside the sandbox.'' w2)
     else
     (case install_requirements k w2 of
        (Inl exc, w3) \<Rightarrow> (Inl exc, w3)
      | (Inr install_ok, w3) \<Rightarrow>
     if \<not> install_ok
     then (Inr (), py_print ''Failed to install RL dependencies inside the sandbox.'' w3)
     else
     (case files_write_file k ''train.py'' (training_script h) w3 of
        (Inl exc, w4) \<Rightarrow> (Inl exc, w4)
      | (Inr _, w4) \<Rightarrow>
     (case commands_run k train_command w4 of
        (Inl exc, w5) \<Rightarrow> (Inl exc, w5)
      | (Inr train_exec, w5) \<Rightarrow>
     let w6 = print_execution_logs train_exec w5 in
     if execution_failed train_exec
     then (Inr (), py_print ''Training failed inside the sandbox.'' w6)
     else
     (case files_read_file k ''training_summary.json'' w6 of
        (Inl (Exception m), w7) \<Rightarrow>
          sandbox_kill k
            (py_print (CHR 0x0A # ''Failed to read training summary: '' @ str (Exception m)) w7)
      | (Inl (BaseException m), w7) \<Rightarrow> (Inl (BaseException m), w7)
      | (Inr summary, w7) \<Rightarrow>
          sandbox_kill k
            (py_print summary (py_print (CHR 0x0A # ''=== Training summary ==='') w7)))))))))"

text \<open>
  \<open>main\<close>, lines 136-179, from the state \<open>s\<close> in which the SDK is when the script starts.
  The result is how \<open>main\<close> ends (\<open>Inr ()\<close>: it returns) and the trace of the run.
\<close>

definition main :: "'s sdk \<Rightarrow> host \<Rightarrow> 's \<Rightarrow> (py_exception + unit) \<times> event list" where
  "main k h s =
     (case sandbox_create k (sandbox_image h) (config_of h) (sandbox_env h)
             \<lparr>sb = s, trace = []\<rparr> of
        (Inl exc, w) \<Rightarrow> (Inl exc, trace w)
      | (Inr _, w) \<Rightarrow>
          (case main_body k h (scope_enter k w) of
             (r, w') \<Rightarrow> (r, trace (scope_exit k w'))))"

subsection \<open>Reading a trace\<close>

text \<open>The commands run, the files read and the files written (path and content), in order.\<close>

fun commands_of :: "event list \<Rightarrow> string list" where
  "commands_of [] = []"
| "commands_of (Run c # tr) = c # commands_of tr"
| "commands_of (_ # tr) = commands_of tr"

fun reads_of :: "event list \<Rightarrow> string list" where
  "reads_of [] = []"
| "reads_of (ReadFile p # tr) = p # reads_of tr"
| "reads_of (_ # tr) = reads_of tr"

fun writes_of :: "event list \<Rightarrow> (string \<times> string) list" where
  "writes_of [] = []"
| "writes_of (WriteFile p c # tr) = (p, c) # writes_of tr"
| "writes_of (_ # tr) = writes_of tr"

text \<open>
  The events that a fallback loop over \<open>cmds\<close> can add to a trace: runs of commands of
  the list, and printed lines.
\<close>

fun fallback_event :: "string list \<Rightarrow> event \<Rightarrow> bool" where
  "fallback_event cmds (Run c) = (c \<in> set cmds)"
| "fallback_event cmds (Print l) = True"
| "fallback_event cmds _ = False"

text \<open>The lines that \<open>_print_execution_logs\<close> prints for an execution result.\<close>

definition log_lines :: "execution \<Rightarrow> string list" where
  "log_lines e =
     map (\<lambda>m. ''[stdout] '' @ msg_text m) (stdout (logs e))
     @ map (\<lambda>m. ''[stderr] '' @ msg_text m) (stderr (logs e))
     @ (case error e of
          None \<Rightarrow> []
        | Some err \<Rightarrow> [''[error] '' @ error_name err @ '': '' @ error_value err])"

text \<open>
  Every command of the list, run one after the other from the SDK state \<open>s\<close>, returns an
  execution result that carries an error.
\<close>

fun all_fail :: "'s sdk \<Rightarrow> string list \<Rightarrow> 's \<Rightarrow> bool" where
  "all_fail k [] s = True"
| "all_fail k (c # cs) s =
     (case run_op k c s of
        (Inl exc, s') \<Rightarrow> False
      | (Inr e, s') \<Rightarrow> error e \<noteq> None \<and> all_fail k cs s')"

text \<open>
  The part of a trace in front of the first run of a bootstrap command, and whether a
  file is written in a trace.
\<close>

fun is_bootstrap_run :: "event \<Rightarrow> bool" where
  "is_bootstrap_run (Run c) = (c \<in> set bootstrap_commands)"
| "is_bootstrap_run _ = False"

definition before_bootstrap :: "event list \<Rightarrow> event list" where
  "before_bootstrap tr = takeWhile (\<lambda>ev. \<not> is_bootstrap_run ev) tr"

definition written :: "string \<Rightarrow> event list \<Rightarrow> bool" where
  "written path tr = (path \<in> set (map fst (writes_of tr)))"

text \<open>
  The events of a run after the fallback lists: the training command, printed lines,
  the read of the summary file, the kill and the end of the scope.
\<close>

fun closing_event :: "event \<Rightarrow> bool" where
  "closing_event (Run c) = (c = train_command)"
| "closing_event (ReadFile p) = (p = ''training_summary.json'')"
| "closing_event (Print l) = True"
| "closing_event Kill = True"
| "closing_event ScopeExit = True"
| "closing_event _ = False"

text \<open>Whether an event is a call of \<open>Sandbox.create\<close>.\<close>

fun is_create :: "event \<Rightarrow> bool" where
  "is_create (Create img config env) = True"
| "is_create _ = False"

text \<open>The host with \<open>RL_TIMESTEPS\<close> set to a value, or unset, and nothing else changed.\<close>

definition with_timesteps :: "host \<Rightarrow> string option \<Rightarrow> host" where
  "with_timesteps h v = h\<lparr>environ := (environ h)(''RL_TIMESTEPS'' := v)\<rparr>"

text \<open>The part of a trace in front of the first write of the file \<open>path\<close>.\<close>

fun is_write :: "string \<Rightarrow> event \<Rightarrow> bool" where
  "is_write path (WriteFile p c) = (p = path)"
| "is_write path _ = False"

definition before_write :: "string \<Rightarrow> event list \<Rightarrow> event list" where
  "before_write path tr = takeWhile (\<lambda>ev. \<not> is_write path ev) tr"

subsection \<open>Sandboxes to run the script against\<close>

text \<open>
  A sandbox without a state of its own: a command fails when \<open>fails\<close> says so, and the
  summary file reads as \<open>summary\<close>.
\<close>

definition ok_execution :: execution where
  "ok_execution = \<lparr>logs = \<lparr>stdout = [\<lparr>msg_text = ''ok''\<rparr>], stderr = []\<rparr>, error = None\<rparr>"

definition failed_execution :: execution where
  "failed_execution =
     \<lparr>logs = \<lparr>stdout = [], stderr = [\<lparr>msg_text = ''not found''\<rparr>]\<rparr>,
      error = Some \<lparr>error_name = ''CommandExecError'', error_value = ''127''\<rparr>\<rparr>"

definition mock :: "(string \<Rightarrow> bool) \<Rightarrow> py_exception + string \<Rightarrow> unit sdk" where
  "mock fails summary =
     \<lparr>create_op = (\<lambda>img config env s. (Inr (), s)),
      aenter_op = (\<lambda>s. s),
      aexit_op = (\<lambda>s. s),
      write_file_op = (\<lambda>path content s. (Inr (), s)),
      run_op = (\<lambda>command s. (Inr (if fails command then failed_execution else ok_execution), s)),
      read_file_op = (\<lambda>path s. (summary, s)),
      kill_op = (\<lambda>s. (Inr (), s))\<rparr>"

definition host_unset :: host where
  "host_unset = \<lparr>environ = Map.empty, requirements_file = Inr ''stable-baselines3''\<rparr>"

definition host_1000 :: host where
  "host_1000 =
     \<lparr>environ = [''RL_TIMESTEPS'' \<mapsto> ''1000''], requirements_file = Inr ''stable-baselines3''\<rparr>"

section \<open>Properties\<close>

subsection \<open>What each step adds to the trace\<close>

lemma call_eq:
  "call opr ev w = (fst (opr (sb w)), \<lparr>sb = snd (opr (sb w)), trace = trace w @ [ev]\<rparr>)"
  by (simp add: call_def split: prod.splits)

lemma commands_of_append: "commands_of (xs @ ys) = commands_of xs @ commands_of ys"
  by (induction xs rule: commands_of.induct) simp_all

lemma reads_of_append: "reads_of (xs @ ys) = reads_of xs @ reads_of ys"
  by (induction xs rule: reads_of.induct) simp_all

lemma writes_of_append: "writes_of (xs @ ys) = writes_of xs @ writes_of ys"
  by (induction xs rule: writes_of.induct) simp_all

lemma commands_of_prints: "commands_of (map Print ls) = []"
  by (induction ls) simp_all

lemma reads_of_prints: "reads_of (map Print ls) = []"
  by (induction ls) simp_all

lemma writes_of_prints: "writes_of (map Print ls) = []"
  by (induction ls) simp_all

lemma foldl_print:
  "foldl (\<lambda>w m. py_print (f m) w) w ms = w\<lparr>trace := trace w @ map (\<lambda>m. Print (f m)) ms\<rparr>"
  by (induction ms arbitrary: w) (simp_all add: py_print_def emit_def)

lemma print_execution_logs_eq:
  "print_execution_logs e w = w\<lparr>trace := trace w @ map Print (log_lines e)\<rparr>"
  unfolding print_execution_logs_def Let_def foldl_print
  by (simp add: log_lines_def py_print_def emit_def split: option.splits)

lemma run_command_eq:
  "run_op k c (sb w) = (Inr e, s') \<Longrightarrow>
   run_command k c w =
     (Inr (error e = None), \<lparr>sb = s', trace = trace w @ Run c # map Print (log_lines e)\<rparr>)"
  by (simp add: run_command_def commands_run_def call_eq print_execution_logs_eq
      execution_failed_def)

lemma run_command_raises:
  "run_op k c (sb w) = (Inl exc, s') \<Longrightarrow>
   run_command k c w = (Inl exc, \<lparr>sb = s', trace = trace w @ [Run c]\<rparr>)"
  by (simp add: run_command_def commands_run_def call_eq)

lemma for_command_first_ok:
  "run_op k c (sb w) = (Inr e, s') \<Longrightarrow> error e = None \<Longrightarrow>
   for_command k (c # cs) w =
     (Inr True, \<lparr>sb = s', trace = trace w @ Run c # map Print (log_lines e)\<rparr>)"
  by (simp add: run_command_eq)

lemma for_command_all_fail:
  "all_fail k cmds (sb w) \<Longrightarrow>
   fst (for_command k cmds w) = Inr False \<and>
   commands_of (trace (snd (for_command k cmds w))) = commands_of (trace w) @ cmds"
proof (induction cmds arbitrary: w)
  case Nil
  then show ?case by simp
next
  case (Cons c cs)
  from Cons.prems obtain e s' where
    run: "run_op k c (sb w) = (Inr e, s')" and err: "error e \<noteq> None" and rest: "all_fail k cs s'"
    by (auto split: prod.splits sum.splits)
  let ?w1 = "\<lparr>sb = s', trace = trace w @ Run c # map Print (log_lines e)\<rparr>"
  from run err have step: "for_command k (c # cs) w = for_command k cs ?w1"
    by (auto simp: run_command_eq)
  from rest have "all_fail k cs (sb ?w1)" by simp
  from Cons.IH [OF this] show ?case
    by (simp add: step commands_of_append commands_of_prints del: for_command.simps)
qed

lemma for_command_False:
  "for_command k cmds w = (Inr False, w') \<Longrightarrow>
   commands_of (trace w') = commands_of (trace w) @ cmds"
proof (induction cmds arbitrary: w)
  case Nil
  then show ?case by simp
next
  case (Cons c cs)
  obtain r s' where run: "run_op k c (sb w) = (r, s')" by (cases "run_op k c (sb w)")
  show ?case
  proof (cases r)
    case (Inl exc)
    with run Cons.prems show ?thesis by (simp add: run_command_raises)
  next
    case (Inr e)
    let ?w1 = "\<lparr>sb = s', trace = trace w @ Run c # map Print (log_lines e)\<rparr>"
    from run Inr Cons.prems have "error e \<noteq> None" and "for_command k cs ?w1 = (Inr False, w')"
      by (auto simp: run_command_eq split: if_splits)
    from Cons.IH [OF this(2)] show ?thesis
      by (simp add: commands_of_append commands_of_prints)
  qed
qed

lemma call_trace: "call opr ev w = (r, w') \<Longrightarrow> trace w' = trace w @ [ev]"
  by (auto simp: call_eq)

lemma bootstrap_disjoint:
  "set bootstrap_commands \<inter> (set install_commands \<union> {train_command}) = {}"
  by (simp add: bootstrap_commands_def install_commands_def train_command_def with_python_env_def)

lemma fallback_events_reads: "list_all (fallback_event cmds) evs \<Longrightarrow> reads_of evs = []"
  by (induction evs rule: reads_of.induct) simp_all

lemma fallback_events_writes: "list_all (fallback_event cmds) evs \<Longrightarrow> writes_of evs = []"
  by (induction evs rule: writes_of.induct) simp_all

lemma fallback_events_commands:
  "list_all (fallback_event cmds) evs \<Longrightarrow> set (commands_of evs) \<subseteq> set cmds"
  by (induction evs rule: commands_of.induct) simp_all

lemma fallback_event_mono:
  "fallback_event cs ev \<Longrightarrow> fallback_event (c # cs) ev"
  by (cases ev) simp_all

lemma prints_fallback: "list_all (fallback_event cmds) (map Print ls)"
  by (induction ls) simp_all

lemma for_command_events:
  "\<exists>evs. trace (snd (for_command k cmds w)) = trace w @ evs
         \<and> list_all (fallback_event cmds) evs"
proof (induction cmds arbitrary: w)
  case Nil
  then show ?case by simp
next
  case (Cons c cs)
  obtain r s' where run: "run_op k c (sb w) = (r, s')" by (cases "run_op k c (sb w)")
  show ?case
  proof (cases r)
    case (Inl exc)
    with run show ?thesis by (simp add: run_command_raises)
  next
    case (Inr e)
    let ?w1 = "\<lparr>sb = s', trace = trace w @ Run c # map Print (log_lines e)\<rparr>"
    show ?thesis
    proof (cases "error e = None")
      case True
      with run Inr show ?thesis by (simp add: run_command_eq prints_fallback)
    next
      case False
      with run Inr have step: "for_command k (c # cs) w = for_command k cs ?w1"
        by (auto simp: run_command_eq)
      from Cons.IH [of ?w1] obtain evs where
        evs: "trace (snd (for_command k cs ?w1)) = trace ?w1 @ evs"
          "list_all (fallback_event cs) evs"
        by blast
      from evs(2) have "list_all (fallback_event (c # cs)) evs"
        by (induction evs) (simp_all add: fallback_event_mono)
      with evs(1) show ?thesis
        by (simp add: step prints_fallback del: for_command.simps)
    qed
  qed
qed

lemma for_command_starts:
  "\<exists>evs. trace (snd (for_command k (c # cs) w)) = trace w @ Run c # evs
         \<and> list_all (fallback_event (c # cs)) evs"
proof -
  obtain r s' where run: "run_op k c (sb w) = (r, s')" by (cases "run_op k c (sb w)")
  show ?thesis
  proof (cases r)
    case (Inl exc)
    with run show ?thesis by (simp add: run_command_raises)
  next
    case (Inr e)
    let ?w1 = "\<lparr>sb = s', trace = trace w @ Run c # map Print (log_lines e)\<rparr>"
    show ?thesis
    proof (cases "error e = None")
      case True
      with run Inr show ?thesis by (simp add: run_command_eq prints_fallback)
    next
      case False
      with run Inr have step: "for_command k (c # cs) w = for_command k cs ?w1"
        by (auto simp: run_command_eq)
      from for_command_events [of k cs ?w1] obtain evs where
        evs: "trace (snd (for_command k cs ?w1)) = trace ?w1 @ evs"
          "list_all (fallback_event cs) evs"
        by blast
      from evs(2) have "list_all (fallback_event (c # cs)) evs"
        by (induction evs) (simp_all add: fallback_event_mono)
      with evs(1) show ?thesis
        by (simp add: step prints_fallback del: for_command.simps)
    qed
  qed
qed

lemma prints_closing: "list_all closing_event (map Print ls)"
  by (induction ls) simp_all

lemma closing_events_writes: "list_all closing_event evs \<Longrightarrow> writes_of evs = []"
  by (induction evs rule: writes_of.induct) simp_all

lemma closing_events_reads:
  "list_all closing_event evs \<Longrightarrow> set (reads_of evs) \<subseteq> {''training_summary.json''}"
  by (induction evs rule: reads_of.induct) simp_all

lemma closing_events_creates: "list_all closing_event evs \<Longrightarrow> filter is_create evs = []"
  by (induction evs) (auto elim: closing_event.elims)

lemma fallback_events_creates:
  "list_all (fallback_event cmds) evs \<Longrightarrow> filter is_create evs = []"
  by (induction evs) (auto elim: fallback_event.elims)

subsection \<open>The shapes of a run of \<open>main\<close>\<close>

lemma main_trace_cases:
  fixes k :: "'s sdk"
  obtains
    (create_raised)
      "snd (main k h s) = [Create (sandbox_image h) (config_of h) (sandbox_env h)]"
  | (load_raised)
      "snd (main k h s) = [Create (sandbox_image h) (config_of h) (sandbox_env h),
                           ScopeEnter, ScopeExit]"
  | (write_raised) reqs where
      "snd (main k h s) = [Create (sandbox_image h) (config_of h) (sandbox_env h),
                           ScopeEnter, WriteFile ''requirements.txt'' reqs, ScopeExit]"
      "load_requirements h = Inr reqs"
  | (bootstrap) reqs pip t where
      "snd (main k h s) = [Create (sandbox_image h) (config_of h) (sandbox_env h),
                           ScopeEnter, WriteFile ''requirements.txt'' reqs]
                          @ Run (hd bootstrap_commands) # pip @ t"
      "list_all (fallback_event bootstrap_commands) pip"
      "commands_of t = []" "writes_of t = []" "list_all closing_event t"
      "load_requirements h = Inr reqs"
  | (install) reqs pip inst t where
      "snd (main k h s) = [Create (sandbox_image h) (config_of h) (sandbox_env h),
                           ScopeEnter, WriteFile ''requirements.txt'' reqs]
                          @ Run (hd bootstrap_commands) # pip
                          @ Run (hd install_commands) # inst @ t"
      "list_all (fallback_event bootstrap_commands) pip"
      "list_all (fallback_event install_commands) inst"
      "commands_of t = []" "writes_of t = []" "list_all closing_event t"
      "load_requirements h = Inr reqs"
  | (train) reqs pip inst t wc w1 w2 w3 where
      "snd (main k h s) = [Create (sandbox_image h) (config_of h) (sandbox_env h),
                           ScopeEnter, WriteFile ''requirements.txt'' reqs]
                          @ Run (hd bootstrap_commands) # pip
                          @ Run (hd install_commands) # inst
                          @ WriteFile ''train.py'' (training_script h) # t"
      "list_all (fallback_event bootstrap_commands) pip"
      "list_all (fallback_event install_commands) inst"
      "set (commands_of t) \<subseteq> {train_command}" "writes_of t = []" "list_all closing_event t"
      "sandbox_create k (sandbox_image h) (config_of h) (sandbox_env h) \<lparr>sb = s, trace = []\<rparr>
         = (Inr (), wc)"
      "load_requirements h = Inr reqs"
      "files_write_file k ''requirements.txt'' reqs (scope_enter k wc) = (Inr (), w1)"
      "ensure_pip k w1 = (Inr True, w2)"
      "install_requirements k w2 = (Inr True, w3)"
      "trace w3 = [Create (sandbox_image h) (config_of h) (sandbox_env h),
                   ScopeEnter, WriteFile ''requirements.txt'' reqs]
                  @ Run (hd bootstrap_commands) # pip
                  @ Run (hd install_commands) # inst"
proof -
  let ?C = "Create (sandbox_image h) (config_of h) (sandbox_env h)"
  obtain r0 wc where create: "sandbox_create k (sandbox_image h) (config_of h) (sandbox_env h)
      \<lparr>sb = s, trace = []\<rparr> = (r0, wc)"
    by (cases "sandbox_create k (sandbox_image h) (config_of h) (sandbox_env h)
      \<lparr>sb = s, trace = []\<rparr>")
  have twc: "trace wc = [?C]"
    using create by (auto simp: sandbox_create_def dest: call_trace)
  show ?thesis
  proof (cases r0)
    case (Inl exc)
    with create twc have "snd (main k h s) = [?C]" by (simp add: main_def)
    then show ?thesis by (rule create_raised)
  next
    case r0: (Inr u)
    let ?w0 = "scope_enter k wc"
    have tw0: "trace ?w0 = [?C, ScopeEnter]" by (simp add: scope_enter_def twc)
    have main_eq: "snd (main k h s) = trace (snd (main_body k h ?w0)) @ [ScopeExit]"
      by (simp add: main_def create r0 scope_exit_def split: prod.splits)
    show ?thesis
    proof (cases "load_requirements h")
      case (Inl exc)
      then have "snd (main k h s) = [?C, ScopeEnter, ScopeExit]"
        by (simp add: main_eq main_body_def tw0)
      then show ?thesis by (rule load_raised)
    next
      case load: (Inr reqs)
      obtain r1 w1 where wreq: "files_write_file k ''requirements.txt'' reqs ?w0 = (r1, w1)"
        by (cases "files_write_file k ''requirements.txt'' reqs ?w0")
      have tw1: "trace w1 = [?C, ScopeEnter, WriteFile ''requirements.txt'' reqs]"
        using wreq tw0 by (auto simp: files_write_file_def dest: call_trace)
      show ?thesis
      proof (cases r1)
        case (Inl exc)
        then have "snd (main k h s) = [?C, ScopeEnter, WriteFile ''requirements.txt'' reqs, ScopeExit]"
          by (simp add: main_eq main_body_def load wreq tw1)
        then show ?thesis using load by (rule write_raised)
      next
        case r1: (Inr u1)
        obtain r2 w2 where pip: "ensure_pip k w1 = (r2, w2)" by (cases "ensure_pip k w1")
        obtain pe where tw2: "trace w2 = trace w1 @ Run (hd bootstrap_commands) # pe"
          and pe: "list_all (fallback_event bootstrap_commands) pe"
          using for_command_starts [of k "hd bootstrap_commands" "tl bootstrap_commands" w1] pip
          by (auto simp: ensure_pip_def bootstrap_commands_def)
        show ?thesis
        proof (cases r2)
          case (Inl exc)
          then have "snd (main k h s) = [?C, ScopeEnter, WriteFile ''requirements.txt'' reqs]
              @ Run (hd bootstrap_commands) # pe @ [ScopeExit]"
            by (simp add: main_eq main_body_def load wreq r1 pip tw1 tw2)
          then show ?thesis using pe by (rule bootstrap) (simp_all add: load)
        next
          case r2: (Inr pip_ok)
          show ?thesis
          proof (cases pip_ok)
            case False
            then have "snd (main k h s) = [?C, ScopeEnter, WriteFile ''requirements.txt'' reqs]
                @ Run (hd bootstrap_commands) # pe
                @ [Print ''Failed to bootstrap pip inside the sandbox.'', ScopeExit]"
              by (simp add: main_eq main_body_def load wreq r1 pip r2 tw1 tw2 py_print_def emit_def)
            then show ?thesis using pe by (rule bootstrap) (simp_all add: load)
          next
            case True
            obtain r3 w3 where inst: "install_requirements k w2 = (r3, w3)"
              by (cases "install_requirements k w2")
            obtain ie where tw3: "trace w3 = trace w2 @ Run (hd install_commands) # ie"
              and ie: "list_all (fallback_event install_commands) ie"
              using for_command_starts [of k "hd install_commands" "tl install_commands" w2] inst
              by (auto simp: install_requirements_def install_commands_def)
            show ?thesis
            proof (cases r3)
              case (Inl exc)
              then have "snd (main k h s) = [?C, ScopeEnter, WriteFile ''requirements.txt'' reqs]
                  @ Run (hd bootstrap_commands) # pe
                  @ Run (hd install_commands) # ie @ [ScopeExit]"
                by (simp add: main_eq main_body_def load wreq r1 pip r2 True inst tw1 tw2 tw3)
              then show ?thesis using pe ie by (rule install) (simp_all add: load)
            next
              case r3: (Inr install_ok)
              show ?thesis
              proof (cases install_ok)
                case False
                then have "snd (main k h s) = [?C, ScopeEnter, WriteFile ''requirements.txt'' reqs]
                    @ Run (hd bootstrap_commands) # pe
                    @ Run (hd install_commands) # ie
                    @ [Print ''Failed to install RL dependencies inside the sandbox.'', ScopeExit]"
                  by (simp add: main_eq main_body_def load wreq r1 pip r2 True inst r3 tw1 tw2 tw3
                      py_print_def emit_def)
                then show ?thesis using pe ie by (rule install) (simp_all add: load)
              next
                case ok: True
                have tail: thesis
                  if "snd (main k h s) = trace w3 @ WriteFile ''train.py'' (training_script h) # t"
                    and "set (commands_of t) \<subseteq> {train_command}" and "writes_of t = []"
                    and "list_all closing_event t" for t
                proof -
                  from that(1) have shape:
                    "snd (main k h s) = [?C, ScopeEnter, WriteFile ''requirements.txt'' reqs]
                      @ Run (hd bootstrap_commands) # pe
                      @ Run (hd install_commands) # ie
                      @ WriteFile ''train.py'' (training_script h) # t"
                    by (simp add: tw1 tw2 tw3)
                  from create r0 have created:
                    "sandbox_create k (sandbox_image h) (config_of h) (sandbox_env h)
                       \<lparr>sb = s, trace = []\<rparr> = (Inr (), wc)"
                    by simp
                  from wreq r1 have wrote:
                    "files_write_file k ''requirements.txt'' reqs (scope_enter k wc) = (Inr (), w1)"
                    by simp
                  from pip r2 True have pip_ok: "ensure_pip k w1 = (Inr True, w2)"
                    by simp
                  from inst r3 ok have inst_ok: "install_requirements k w2 = (Inr True, w3)"
                    by simp
                  have upto_install:
                    "trace w3 = [?C, ScopeEnter, WriteFile ''requirements.txt'' reqs]
                      @ Run (hd bootstrap_commands) # pe @ Run (hd install_commands) # ie"
                    by (simp add: tw1 tw2 tw3)
                  show thesis
                    by (rule train [OF shape pe ie that(2,3,4) created load wrote pip_ok inst_ok
                          upto_install])
                qed
                note upto = load wreq r1 pip r2 True inst r3 ok
                obtain r4 w4 where
                  wtrain: "files_write_file k ''train.py'' (training_script h) w3 = (r4, w4)"
                  by (cases "files_write_file k ''train.py'' (training_script h) w3")
                have tw4: "trace w4 = trace w3 @ [WriteFile ''train.py'' (training_script h)]"
                  using wtrain by (auto simp: files_write_file_def dest: call_trace)
                show ?thesis
                proof (cases r4)
                  case (Inl exc)
                  then have "snd (main k h s)
                      = trace w3 @ WriteFile ''train.py'' (training_script h) # [ScopeExit]"
                    by (simp add: main_eq main_body_def upto wtrain tw4)
                  then show ?thesis by (rule tail) simp_all
                next
                  case r4: (Inr u4)
                  obtain r5 w5 where train_run: "commands_run k train_command w4 = (r5, w5)"
                    by (cases "commands_run k train_command w4")
                  have tw5: "trace w5 = trace w4 @ [Run train_command]"
                    using train_run by (auto simp: commands_run_def dest: call_trace)
                  show ?thesis
                  proof (cases r5)
                    case (Inl exc)
                    then have "snd (main k h s)
                        = trace w3 @ WriteFile ''train.py'' (training_script h)
                            # [Run train_command, ScopeExit]"
                      by (simp add: main_eq main_body_def upto wtrain r4 train_run tw4 tw5)
                    then show ?thesis by (rule tail) simp_all
                  next
                    case r5: (Inr train_exec)
                    show ?thesis
                    proof (cases "error train_exec = None")
                      case False
                      then have "snd (main k h s)
                          = trace w3 @ WriteFile ''train.py'' (training_script h)
                              # (Run train_command # map Print (log_lines train_exec)
                                 @ [Print ''Training failed inside the sandbox.'', ScopeExit])"
                        by (simp add: main_eq main_body_def upto wtrain r4 train_run r5 tw4 tw5
                            execution_failed_def print_execution_logs_eq py_print_def emit_def)
                      then show ?thesis
                        by (rule tail)
                          (simp_all add: commands_of_append writes_of_append commands_of_prints
                            writes_of_prints prints_closing)
                    next
                      case no_error: True
                      obtain r7 w7 where rd: "files_read_file k ''training_summary.json''
                          (print_execution_logs train_exec w5) = (r7, w7)"
                        by (cases "files_read_file k ''training_summary.json''
                          (print_execution_logs train_exec w5)")
                      have tw7: "trace w7 = trace w5 @ map Print (log_lines train_exec)
                          @ [ReadFile ''training_summary.json'']"
                        using rd
                        by (auto simp: files_read_file_def print_execution_logs_eq dest: call_trace)
                      have "\<exists>ls fin. snd (main k h s)
                          = trace w3 @ WriteFile ''train.py'' (training_script h)
                              # (Run train_command # map Print (log_lines train_exec)
                                 @ ReadFile ''training_summary.json'' # map Print ls @ fin)
                          \<and> (fin = [Kill, ScopeExit] \<or> fin = [ScopeExit])"
                      proof (cases r7)
                        case (Inl exc)
                        show ?thesis
                        proof (cases exc)
                          case (Exception m)
                          with Inl have "snd (main k h s)
                            = trace w3 @ WriteFile ''train.py'' (training_script h)
                                # (Run train_command # map Print (log_lines train_exec)
                                   @ ReadFile ''training_summary.json''
                                   # map Print [CHR 0x0A # ''Failed to read training summary: ''
                                        @ m]
                                   @ [Kill, ScopeExit])"
                            using no_error
                            by (simp add: main_eq main_body_def upto wtrain r4 train_run r5 rd
                                tw4 tw5 tw7 execution_failed_def py_print_def emit_def
                                sandbox_kill_def call_eq)
                          then show ?thesis by blast
                        next
                          case (BaseException m)
                          with Inl have "snd (main k h s)
                            = trace w3 @ WriteFile ''train.py'' (training_script h)
                                # (Run train_command # map Print (log_lines train_exec)
                                   @ ReadFile ''training_summary.json''
                                   # map Print [] @ [ScopeExit])"
                            using no_error
                            by (simp add: main_eq main_body_def upto wtrain r4 train_run r5 rd
                                tw4 tw5 tw7 execution_failed_def)
                          then show ?thesis by blast
                        qed
                      next
                        case (Inr summary)
                        then have "snd (main k h s)
                          = trace w3 @ WriteFile ''train.py'' (training_script h)
                              # (Run train_command # map Print (log_lines train_exec)
                                 @ ReadFile ''training_summary.json''
                                 # map Print [CHR 0x0A # ''=== Training summary ==='', summary]
                                 @ [Kill, ScopeExit])"
                          using no_error
                          by (simp add: main_eq main_body_def upto wtrain r4 train_run r5 rd
                              tw4 tw5 tw7 execution_failed_def py_print_def emit_def
                              sandbox_kill_def call_eq)
                        then show ?thesis by blast
                      qed
                      then obtain ls fin where shape: "snd (main k h s)
                          = trace w3 @ WriteFile ''train.py'' (training_script h)
                              # (Run train_command # map Print (log_lines train_exec)
                                 @ ReadFile ''training_summary.json'' # map Print ls @ fin)"
                        and fin: "fin = [Kill, ScopeExit] \<or> fin = [ScopeExit]"
                        by blast
                      show ?thesis
                        by (rule tail [OF shape])
                          (insert fin,
                           auto simp: commands_of_append writes_of_append commands_of_prints
                            writes_of_prints prints_closing)
                    qed
                  qed
                qed
              qed
            qed
          qed
        qed
      qed
    qed
  qed
qed

subsection \<open>Running against the stateless sandbox\<close>

lemma pair_fst: "fst p = a \<Longrightarrow> p = (a, snd p)"
  by (cases p) simp

lemma mock_create:
  "sandbox_create (mock fails summary) img config env w
     = (Inr (), snd (sandbox_create (mock fails summary) img config env w))"
  by (rule pair_fst) (simp add: sandbox_create_def call_eq mock_def)

lemma mock_write_file:
  "files_write_file (mock fails summary) path content w
     = (Inr (), snd (files_write_file (mock fails summary) path content w))"
  by (rule pair_fst) (simp add: files_write_file_def call_eq mock_def)

lemma mock_run_ok:
  "\<not> fails c \<Longrightarrow> commands_run (mock fails summary) c w
     = (Inr ok_execution, snd (commands_run (mock fails summary) c w))"
  by (rule pair_fst) (simp add: commands_run_def call_eq mock_def)

lemma mock_run_fails:
  "fails c \<Longrightarrow> commands_run (mock fails summary) c w
     = (Inr failed_execution, snd (commands_run (mock fails summary) c w))"
  by (rule pair_fst) (simp add: commands_run_def call_eq mock_def)

lemma mock_read_file:
  "files_read_file (mock fails summary) path w
     = (summary, snd (files_read_file (mock fails summary) path w))"
  by (rule pair_fst) (simp add: files_read_file_def call_eq mock_def)

lemma mock_kill: "fst (kill_op (mock fails summary) s) = Inr ()"
  by (simp add: mock_def)

lemma mock_first_ok:
  "\<not> fails c \<Longrightarrow> fst (for_command (mock fails summary) (c # cs) w) = Inr True"
  using for_command_first_ok [of "mock fails summary" c w ok_execution "()" cs]
  by (simp add: mock_def ok_execution_def del: for_command.simps)

lemma mock_all_fail:
  "list_all fails cmds \<Longrightarrow> all_fail (mock fails summary) cmds s"
  by (induction cmds) (simp_all add: mock_def failed_execution_def)

lemma mock_ensure_pip_ok:
  "\<not> fails (with_python_env ''python3 -m pip --version'') \<Longrightarrow>
   ensure_pip (mock fails summary) w = (Inr True, snd (ensure_pip (mock fails summary) w))"
  unfolding ensure_pip_def bootstrap_commands_def by (rule pair_fst) (rule mock_first_ok)

lemma mock_ensure_pip_fails:
  "list_all fails bootstrap_commands \<Longrightarrow>
   ensure_pip (mock fails summary) w = (Inr False, snd (ensure_pip (mock fails summary) w))"
  unfolding ensure_pip_def
  using for_command_all_fail [of "mock fails summary" bootstrap_commands w] mock_all_fail
  by (intro pair_fst) blast

lemma mock_install_ok:
  "\<not> fails (with_python_env
      ''python3 -m pip install --no-cache-dir --break-system-packages -r requirements.txt'') \<Longrightarrow>
   install_requirements (mock fails summary) w
     = (Inr True, snd (install_requirements (mock fails summary) w))"
  unfolding install_requirements_def install_commands_def
  by (rule pair_fst) (rule mock_first_ok)

lemma train_command_fresh:
  "train_command \<notin> set bootstrap_commands" "train_command \<notin> set install_commands"
  using bootstrap_disjoint
  by (simp_all add: install_commands_def train_command_def with_python_env_def)

lemma run_ends: "p = (r, xs @ ys @ [a, b]) \<Longrightarrow> fst p = r \<and> take 2 (rev (snd p)) = [b, a]"
  by simp

lemma host_unset_requirements: "load_requirements host_unset = Inr ''stable-baselines3''"
  by (simp add: load_requirements_def host_unset_def)

lemma mock_ok_trace:
  "load_requirements h = Inr reqs \<Longrightarrow>
   main (mock (\<lambda>c. False) (Inr summary)) h () =
     (Inr (),
      [Create (sandbox_image h) (config_of h) (sandbox_env h), ScopeEnter,
       WriteFile ''requirements.txt'' reqs,
       Run (with_python_env ''python3 -m pip --version''), Print ''[stdout] ok'',
       Run (with_python_env
         ''python3 -m pip install --no-cache-dir --break-system-packages -r requirements.txt''),
       Print ''[stdout] ok'',
       WriteFile ''train.py'' (training_script h),
       Run train_command, Print ''[stdout] ok'',
       ReadFile ''training_summary.json'',
       Print (CHR 0x0A # ''=== Training summary ===''), Print summary,
       Kill, ScopeExit])"
  by (simp add: main_def main_body_def sandbox_create_def files_write_file_def commands_run_def
      files_read_file_def sandbox_kill_def call_eq scope_enter_def scope_exit_def mock_def
      ensure_pip_def install_requirements_def bootstrap_commands_def install_commands_def
      run_command_def print_execution_logs_eq log_lines_def ok_execution_def
      execution_failed_def py_print_def emit_def)

lemma mock_cancelled_trace:
  "load_requirements h = Inr reqs \<Longrightarrow>
   main (mock (\<lambda>c. False) (Inl (BaseException m))) h () =
     (Inl (BaseException m),
      [Create (sandbox_image h) (config_of h) (sandbox_env h), ScopeEnter,
       WriteFile ''requirements.txt'' reqs,
       Run (with_python_env ''python3 -m pip --version''), Print ''[stdout] ok'',
       Run (with_python_env
         ''python3 -m pip install --no-cache-dir --break-system-packages -r requirements.txt''),
       Print ''[stdout] ok'',
       WriteFile ''train.py'' (training_script h),
       Run train_command, Print ''[stdout] ok'',
       ReadFile ''training_summary.json'',
       ScopeExit])"
  by (simp add: main_def main_body_def sandbox_create_def files_write_file_def commands_run_def
      files_read_file_def call_eq scope_enter_def scope_exit_def mock_def
      ensure_pip_def install_requirements_def bootstrap_commands_def install_commands_def
      run_command_def print_execution_logs_eq log_lines_def ok_execution_def
      execution_failed_def py_print_def emit_def)

lemma run_mem: "Run c \<in> set tr \<longleftrightarrow> c \<in> set (commands_of tr)"
  by (induction tr rule: commands_of.induct) auto

lemma write_mem: "WriteFile p c \<in> set tr \<longleftrightarrow> (p, c) \<in> set (writes_of tr)"
  by (induction tr rule: writes_of.induct) auto

lemma fallback_events_no_write:
  "list_all (fallback_event cmds) evs \<Longrightarrow>
   takeWhile (\<lambda>ev. \<not> is_write p ev) (evs @ rest) = evs @ takeWhile (\<lambda>ev. \<not> is_write p ev) rest"
proof (induction evs)
  case Nil
  then show ?case by simp
next
  case (Cons ev evs)
  then show ?case by (cases ev) simp_all
qed

lemma hd_bootstrap_mem: "hd bootstrap_commands \<in> set bootstrap_commands"
  by (simp add: bootstrap_commands_def)

lemma hd_install_mem: "hd install_commands \<in> set install_commands"
  by (simp add: install_commands_def)

lemma hd_bootstrap: "is_bootstrap_run (Run (hd bootstrap_commands))"
  by (simp add: hd_bootstrap_mem)

lemma no_commands_no_bootstrap:
  "commands_of tr = [] \<Longrightarrow> takeWhile (\<lambda>ev. \<not> is_bootstrap_run ev) tr = tr"
  by (induction tr rule: commands_of.induct) simp_all

lemma train_py_content:
  "(''train.py'', c) \<in> set (writes_of (snd (main k h s))) \<Longrightarrow> c = training_script h"
  by (cases rule: main_trace_cases [of k h s])
    (auto simp: writes_of_append fallback_events_writes)

lemma main_commands:
  "set (commands_of (snd (main k h s)))
     \<subseteq> set bootstrap_commands \<union> set install_commands \<union> {train_command}"
proof (cases rule: main_trace_cases [of k h s])
  case create_raised
  then show ?thesis by simp
next
  case load_raised
  then show ?thesis by simp
next
  case (write_raised reqs)
  then show ?thesis by simp
next
  case (bootstrap reqs pip t)
  then show ?thesis
    using fallback_events_commands [of bootstrap_commands pip]
    by (auto simp: commands_of_append hd_bootstrap_mem)
next
  case (install reqs pip inst t)
  then show ?thesis
    using fallback_events_commands [of bootstrap_commands pip]
      fallback_events_commands [of install_commands inst]
    by (auto simp: commands_of_append hd_bootstrap_mem hd_install_mem)
next
  case (train reqs pip inst t)
  then show ?thesis
    using fallback_events_commands [of bootstrap_commands pip]
      fallback_events_commands [of install_commands inst]
    by (auto simp: commands_of_append hd_bootstrap_mem hd_install_mem)
qed

lemma main_starts_with_create:
  "hd (snd (main k h s)) = Create (sandbox_image h) (config_of h) (sandbox_env h)"
  by (cases rule: main_trace_cases [of k h s]) simp_all


lemma train_command_not_head:
  "train_command \<noteq> hd bootstrap_commands" "train_command \<noteq> hd install_commands"
  using train_command_fresh hd_bootstrap_mem hd_install_mem by auto

lemma fallback_events_run:
  "list_all (fallback_event cmds) evs \<Longrightarrow> c \<notin> set cmds \<Longrightarrow> Run c \<notin> set evs"
  using fallback_events_commands [of cmds evs] by (auto simp: run_mem)

subsection \<open>The text of the training script\<close>

lemma training_script_text: "training_script h = join_lines script_lines"
  unfolding training_script_def by code_simp

lemma one_evaluation: \<open>occurrences ''evaluate_policy('' (join_lines script_lines) = 1\<close>
  by code_simp

lemma one_save: \<open>occurrences ''model.save('' (join_lines script_lines) = 1\<close>
  by code_simp

lemma default_5000: \<open>embeds_default ''RL_TIMESTEPS'' ''5000'' (join_lines script_lines)\<close>
  by code_simp

lemma no_default_1000: \<open>\<not> embeds_default ''RL_TIMESTEPS'' ''1000'' (join_lines script_lines)\<close>
  by code_simp


lemma host_1000_requirements: "load_requirements host_1000 = Inr ''stable-baselines3''"
  by (simp add: load_requirements_def host_1000_def)

lemma main_first_event:
  "take 1 (snd (main k h s)) = [Create (sandbox_image h) (config_of h) (sandbox_env h)]"
  by (cases rule: main_trace_cases [of k h s]) simp_all

lemma main_creates: "filter is_create (snd (main k h s)) = take 1 (snd (main k h s))"
proof (cases rule: main_trace_cases [of k h s])
  case create_raised
  then show ?thesis by simp
next
  case load_raised
  then show ?thesis by simp
next
  case (write_raised reqs)
  then show ?thesis by simp
next
  case (bootstrap reqs pip t)
  then show ?thesis
    by (simp add: fallback_events_creates [OF bootstrap(2)] closing_events_creates)
next
  case (install reqs pip inst t)
  then show ?thesis
    by (simp add: fallback_events_creates [OF install(2)] fallback_events_creates [OF install(3)]
        closing_events_creates)
next
  case (train reqs pip inst t)
  then show ?thesis
    by (simp add: fallback_events_creates [OF train(2)] fallback_events_creates [OF train(3)]
        closing_events_creates)
qed

lemma main_writes:
  assumes mem: "(p, c) \<in> set (writes_of (snd (main k h s)))"
  shows "(p = ''requirements.txt'' \<and> load_requirements h = Inr c)
         \<or> (p = ''train.py'' \<and> c = training_script h)"
proof (cases rule: main_trace_cases [of k h s])
  case create_raised
  with mem show ?thesis by simp
next
  case load_raised
  with mem show ?thesis by simp
next
  case (write_raised reqs)
  with mem show ?thesis by auto
next
  case (bootstrap reqs pip t)
  with mem show ?thesis
    by (auto simp: writes_of_append fallback_events_writes [OF bootstrap(2)])
next
  case (install reqs pip inst t)
  with mem show ?thesis
    by (auto simp: writes_of_append fallback_events_writes [OF install(2)]
        fallback_events_writes [OF install(3)])
next
  case (train reqs pip inst t)
  with mem show ?thesis
    by (auto simp: writes_of_append fallback_events_writes [OF train(2)]
        fallback_events_writes [OF train(3)])
qed

lemma main_reads: "set (reads_of (snd (main k h s))) \<subseteq> {''training_summary.json''}"
proof (cases rule: main_trace_cases [of k h s])
  case create_raised
  then show ?thesis by simp
next
  case load_raised
  then show ?thesis by simp
next
  case (write_raised reqs)
  then show ?thesis by simp
next
  case (bootstrap reqs pip t)
  then show ?thesis
    using closing_events_reads [OF bootstrap(5)]
    by (simp add: reads_of_append fallback_events_reads [OF bootstrap(2)])
next
  case (install reqs pip inst t)
  then show ?thesis
    using closing_events_reads [OF install(6)]
    by (simp add: reads_of_append fallback_events_reads [OF install(2)]
        fallback_events_reads [OF install(3)])
next
  case (train reqs pip inst t)
  then show ?thesis
    using closing_events_reads [OF train(6)]
    by (simp add: reads_of_append fallback_events_reads [OF train(2)]
        fallback_events_reads [OF train(3)])
qed

lemma with_timesteps_others:
  "sandbox_image (with_timesteps h v) = sandbox_image h"
  "config_of (with_timesteps h v) = config_of h"
  "load_requirements (with_timesteps h v) = load_requirements h"
  by (simp_all add: with_timesteps_def sandbox_image_def config_of_def load_requirements_def
      getenv_def)

lemma main_body_with_timesteps: "main_body k (with_timesteps h v) w = main_body k h w"
  unfolding main_body_def training_script_def with_timesteps_others by (rule refl)

subsection \<open>The fallback lists\<close>

text \<open>
  C1.  For every ordered fallback list, and so for the bootstrap list of \<open>_ensure_pip\<close>
  and the install list of \<open>_install_requirements\<close>: if the execution result of the first
  command carries no error, the helper returns \<open>True\<close> and exactly one command, the
  first, has been run.
\<close>

theorem first_command_succeeds:
  "(run_op k c (sb w) = (Inr e, s') \<and> error e = None \<longrightarrow>
      fst (for_command k (c # cs) w) = Inr True \<and>
      commands_of (trace (snd (for_command k (c # cs) w))) = commands_of (trace w) @ [c])
   \<and> (run_op k (with_python_env ''python3 -m pip --version'') (sb w) = (Inr e, s')
        \<and> error e = None \<longrightarrow>
      fst (ensure_pip k w) = Inr True \<and>
      commands_of (trace (snd (ensure_pip k w)))
        = commands_of (trace w) @ [with_python_env ''python3 -m pip --version''])
   \<and> (run_op k (with_python_env
          ''python3 -m pip install --no-cache-dir --break-system-packages -r requirements.txt'')
          (sb w) = (Inr e, s')
        \<and> error e = None \<longrightarrow>
      fst (install_requirements k w) = Inr True \<and>
      commands_of (trace (snd (install_requirements k w)))
        = commands_of (trace w) @ [with_python_env
          ''python3 -m pip install --no-cache-dir --break-system-packages -r requirements.txt''])"
  by (simp add: ensure_pip_def install_requirements_def bootstrap_commands_def
      install_commands_def for_command_first_ok commands_of_append commands_of_prints
      del: for_command.simps)

theorem first_command_succeeds_witness:
  "fst (for_command (mock (\<lambda>c. False) (Inr [])) [''true'', ''false''] \<lparr>sb = (), trace = []\<rparr>)
     = Inr True
   \<and> commands_of (trace (snd (for_command (mock (\<lambda>c. False) (Inr [])) [''true'', ''false'']
        \<lparr>sb = (), trace = []\<rparr>))) = [''true'']
   \<and> fst (ensure_pip (mock (\<lambda>c. False) (Inr [])) \<lparr>sb = (), trace = []\<rparr>) = Inr True
   \<and> commands_of (trace (snd (ensure_pip (mock (\<lambda>c. False) (Inr [])) \<lparr>sb = (), trace = []\<rparr>)))
       = [with_python_env ''python3 -m pip --version'']
   \<and> fst (install_requirements (mock (\<lambda>c. False) (Inr [])) \<lparr>sb = (), trace = []\<rparr>) = Inr True
   \<and> commands_of (trace (snd (install_requirements (mock (\<lambda>c. False) (Inr []))
        \<lparr>sb = (), trace = []\<rparr>)))
       = [with_python_env
          ''python3 -m pip install --no-cache-dir --break-system-packages -r requirements.txt'']"
proof -
  have run: "run_op (mock (\<lambda>c. False) (Inr [])) c (sb \<lparr>sb = (), trace = []\<rparr>)
      = (Inr ok_execution, ())" for c
    by (simp add: mock_def)
  have ok: "error ok_execution = None"
    by (simp add: ok_execution_def)
  from first_command_succeeds [of "mock (\<lambda>c. False) (Inr [])" _ "\<lparr>sb = (), trace = []\<rparr>"
      ok_execution "()" "[''false'']"] run ok
  show ?thesis
    by simp
qed

text \<open>
  C2.  For every ordered fallback list, and so for the two lists of the script: if the
  execution result of every command carries an error, the helper returns \<open>False\<close> and
  the commands it has run are the commands of the list, each once, in the order of the
  list.
\<close>

theorem all_commands_fail:
  "(all_fail k cmds (sb w) \<longrightarrow>
      fst (for_command k cmds w) = Inr False \<and>
      commands_of (trace (snd (for_command k cmds w))) = commands_of (trace w) @ cmds)
   \<and> (all_fail k bootstrap_commands (sb w) \<longrightarrow>
      fst (ensure_pip k w) = Inr False \<and>
      commands_of (trace (snd (ensure_pip k w))) = commands_of (trace w) @ bootstrap_commands)
   \<and> (all_fail k install_commands (sb w) \<longrightarrow>
      fst (install_requirements k w) = Inr False \<and>
      commands_of (trace (snd (install_requirements k w)))
        = commands_of (trace w) @ install_commands)"
  unfolding ensure_pip_def install_requirements_def
  using for_command_all_fail by blast

theorem all_commands_fail_witness:
  "all_fail (mock (\<lambda>c. True) (Inr [])) bootstrap_commands ()
   \<and> fst (ensure_pip (mock (\<lambda>c. True) (Inr [])) \<lparr>sb = (), trace = []\<rparr>) = Inr False
   \<and> commands_of (trace (snd (ensure_pip (mock (\<lambda>c. True) (Inr [])) \<lparr>sb = (), trace = []\<rparr>)))
       = bootstrap_commands
   \<and> all_fail (mock (\<lambda>c. True) (Inr [])) install_commands ()
   \<and> fst (install_requirements (mock (\<lambda>c. True) (Inr [])) \<lparr>sb = (), trace = []\<rparr>) = Inr False
   \<and> commands_of (trace (snd (install_requirements (mock (\<lambda>c. True) (Inr []))
        \<lparr>sb = (), trace = []\<rparr>))) = install_commands"
proof -
  have fail: "all_fail (mock (\<lambda>c. True) (Inr [])) cmds ()" for cmds
    by (induction cmds) (simp_all add: mock_def failed_execution_def)
  from all_commands_fail [of "mock (\<lambda>c. True) (Inr [])" _ "\<lparr>sb = (), trace = []\<rparr>"] fail
  show ?thesis
    by simp
qed

text \<open>
  C6.  An attempt is judged failed exactly when the error field of its execution result
  is not \<open>None\<close>: that is what \<open>_execution_failed\<close> returns, two results with the same
  error field are judged alike whatever their output, \<open>_run_command\<close> returns the
  negation, and the loop goes on to the next candidate exactly in that case.
\<close>

theorem failure_is_the_error_field:
  "execution_failed e = (error e \<noteq> None)
   \<and> (error e = error e' \<longrightarrow> execution_failed e = execution_failed e')
   \<and> (run_op k c (sb w) = (Inr e, s') \<longrightarrow>
        fst (run_command k c w) = Inr (error e = None) \<and>
        for_command k (c # cs) w =
          (if error e \<noteq> None
           then for_command k cs (snd (run_command k c w))
           else (Inr True, snd (run_command k c w))))"
  by (auto simp: execution_failed_def run_command_eq)

theorem failure_is_the_error_field_witness:
  "error failed_execution = error (failed_execution\<lparr>logs := logs ok_execution\<rparr>)
   \<and> execution_failed failed_execution
   \<and> execution_failed (failed_execution\<lparr>logs := logs ok_execution\<rparr>)
   \<and> fst (run_command (mock (\<lambda>c. c = ''false'') (Inr [])) ''false'' \<lparr>sb = (), trace = []\<rparr>)
       = Inr False
   \<and> fst (for_command (mock (\<lambda>c. c = ''false'') (Inr [])) [''false'', ''true'']
        \<lparr>sb = (), trace = []\<rparr>) = Inr True
   \<and> commands_of (trace (snd (for_command (mock (\<lambda>c. c = ''false'') (Inr []))
        [''false'', ''true''] \<lparr>sb = (), trace = []\<rparr>))) = [''false'', ''true'']"
proof -
  have run: "run_op (mock (\<lambda>c. c = ''false'') (Inr [])) ''false'' (sb \<lparr>sb = (), trace = []\<rparr>)
      = (Inr failed_execution, ())"
    by (simp add: mock_def)
  have err: "error failed_execution \<noteq> None"
    by (simp add: failed_execution_def)
  have rc: "run_command (mock (\<lambda>c. c = ''false'') (Inr [])) ''false'' \<lparr>sb = (), trace = []\<rparr>
      = (Inr False, \<lparr>sb = (), trace = Run ''false'' # map Print (log_lines failed_execution)\<rparr>)"
    using run_command_eq [OF run] err by simp
  have run': "run_op (mock (\<lambda>c. c = ''false'') (Inr [])) ''true''
      (sb \<lparr>sb = (), trace = Run ''false'' # map Print (log_lines failed_execution)\<rparr>)
      = (Inr ok_execution, ())"
    by (simp add: mock_def)
  have rest: "for_command (mock (\<lambda>c. c = ''false'') (Inr [])) [''true'']
      (snd (run_command (mock (\<lambda>c. c = ''false'') (Inr [])) ''false'' \<lparr>sb = (), trace = []\<rparr>))
      = (Inr True, \<lparr>sb = (), trace = Run ''false'' # map Print (log_lines failed_execution)
           @ Run ''true'' # map Print (log_lines ok_execution)\<rparr>)"
    using for_command_first_ok [OF run', of "[]"] by (simp add: rc ok_execution_def)
  from failure_is_the_error_field [of failed_execution "failed_execution\<lparr>logs := logs ok_execution\<rparr>"
      "mock (\<lambda>c. c = ''false'') (Inr [])" "''false''" "\<lparr>sb = (), trace = []\<rparr>" "()" "[''true'']"]
    run err rest
  show ?thesis
    by (simp add: execution_failed_def commands_of_append commands_of_prints
        del: for_command.simps)
qed

subsection \<open>The stages of \<open>main\<close>\<close>

text \<open>
  C4.  In a run of \<open>main\<close> that reaches the bootstrap step (the sandbox is created,
  the manifest is read and written) and in which \<open>_ensure_pip\<close> returns \<open>False\<close>:
  \<open>main\<close> prints "Failed to bootstrap pip inside the sandbox." and returns, leaving the
  scope; the commands of the whole run are the bootstrap commands, so no install
  command and no training command is run.
\<close>

theorem bootstrap_failure_aborts:
  assumes create: "sandbox_create k (sandbox_image h) (config_of h) (sandbox_env h)
                     \<lparr>sb = s, trace = []\<rparr> = (Inr (), wc)"
      and load: "load_requirements h = Inr requirements"
      and wreq: "files_write_file k ''requirements.txt'' requirements (scope_enter k wc)
                    = (Inr (), w1)"
      and pip: "ensure_pip k w1 = (Inr False, w2)"
  shows "main k h s = (Inr (), trace w2 @ [Print ''Failed to bootstrap pip inside the sandbox.'',
                                          ScopeExit])
         \<and> commands_of (snd (main k h s)) = bootstrap_commands
         \<and> set (commands_of (snd (main k h s))) \<inter> (set install_commands \<union> {train_command}) = {}"
proof -
  have run: "main k h s = (Inr (), trace w2 @ [Print ''Failed to bootstrap pip inside the sandbox.'',
                                          ScopeExit])"
    by (simp add: main_def main_body_def create load wreq pip py_print_def emit_def scope_exit_def)
  have "trace wc = [Create (sandbox_image h) (config_of h) (sandbox_env h)]"
    using create by (auto simp: sandbox_create_def dest: call_trace)
  moreover have "trace w1 = trace (scope_enter k wc) @ [WriteFile ''requirements.txt'' requirements]"
    using wreq by (auto simp: files_write_file_def dest: call_trace)
  moreover have "commands_of (trace w2) = commands_of (trace w1) @ bootstrap_commands"
    using pip by (auto simp: ensure_pip_def dest: for_command_False)
  ultimately have cmds: "commands_of (snd (main k h s)) = bootstrap_commands"
    by (simp add: run scope_enter_def commands_of_append)
  from run cmds bootstrap_disjoint show ?thesis by simp
qed


theorem bootstrap_failure_aborts_witness:
  "fst (main (mock (\<lambda>c. True) (Inr [])) host_unset ()) = Inr ()
   \<and> commands_of (snd (main (mock (\<lambda>c. True) (Inr [])) host_unset ())) = bootstrap_commands
   \<and> set (commands_of (snd (main (mock (\<lambda>c. True) (Inr [])) host_unset ())))
       \<inter> (set install_commands \<union> {train_command}) = {}"
proof -
  have fails: "list_all (\<lambda>c. True) bootstrap_commands"
    by (simp add: list_all_iff)
  from bootstrap_failure_aborts [OF mock_create [of "\<lambda>c. True" "Inr []"]
      host_unset_requirements mock_write_file mock_ensure_pip_fails [OF fails]]
  show ?thesis
    by (metis fst_conv)
qed

text \<open>
  C5.  In a run of \<open>main\<close> that reaches the training command and in which the execution
  result of the training command carries an error: \<open>main\<close> prints the logs of the
  result and "Training failed inside the sandbox.", returns and leaves the scope; no
  file is read in the whole run, so \<open>training_summary.json\<close> is not.
\<close>

theorem training_failure_skips_summary:
  assumes create: "sandbox_create k (sandbox_image h) (config_of h) (sandbox_env h)
                     \<lparr>sb = s, trace = []\<rparr> = (Inr (), wc)"
      and load: "load_requirements h = Inr requirements"
      and wreq: "files_write_file k ''requirements.txt'' requirements (scope_enter k wc)
                    = (Inr (), w1)"
      and pip: "ensure_pip k w1 = (Inr True, w2)"
      and inst: "install_requirements k w2 = (Inr True, w3)"
      and wtrain: "files_write_file k ''train.py'' (training_script h) w3 = (Inr (), w4)"
      and train: "commands_run k train_command w4 = (Inr train_exec, w5)"
      and err: "error train_exec \<noteq> None"
  shows "main k h s = (Inr (), trace w5 @ map Print (log_lines train_exec)
                         @ [Print ''Training failed inside the sandbox.'', ScopeExit])
         \<and> reads_of (snd (main k h s)) = []"
proof -
  have run: "main k h s = (Inr (), trace w5 @ map Print (log_lines train_exec)
                         @ [Print ''Training failed inside the sandbox.'', ScopeExit])"
    using err
    by (simp add: main_def main_body_def create load wreq pip inst wtrain train
        print_execution_logs_eq execution_failed_def py_print_def emit_def scope_exit_def)
  have "trace wc = [Create (sandbox_image h) (config_of h) (sandbox_env h)]"
    using create by (auto simp: sandbox_create_def dest: call_trace)
  moreover have "trace w1 = trace (scope_enter k wc) @ [WriteFile ''requirements.txt'' requirements]"
    using wreq by (auto simp: files_write_file_def dest: call_trace)
  moreover have "reads_of (trace w2) = reads_of (trace w1)"
    using pip for_command_events [of k bootstrap_commands w1]
    by (auto simp: ensure_pip_def reads_of_append fallback_events_reads)
  moreover have "reads_of (trace w3) = reads_of (trace w2)"
    using inst for_command_events [of k install_commands w2]
    by (auto simp: install_requirements_def reads_of_append fallback_events_reads)
  moreover have "trace w4 = trace w3 @ [WriteFile ''train.py'' (training_script h)]"
    using wtrain by (auto simp: files_write_file_def dest: call_trace)
  moreover have "trace w5 = trace w4 @ [Run train_command]"
    using train by (auto simp: commands_run_def dest: call_trace)
  ultimately have "reads_of (snd (main k h s)) = []"
    by (simp add: run scope_enter_def reads_of_append reads_of_prints)
  with run show ?thesis by simp
qed


theorem training_failure_skips_summary_witness:
  "fst (main (mock (\<lambda>c. c = train_command) (Inr [])) host_unset ()) = Inr ()
   \<and> reads_of (snd (main (mock (\<lambda>c. c = train_command) (Inr [])) host_unset ())) = []
   \<and> take 2 (rev (snd (main (mock (\<lambda>c. c = train_command) (Inr [])) host_unset ())))
       = [ScopeExit, Print ''Training failed inside the sandbox.'']"
proof -
  have b: "with_python_env ''python3 -m pip --version'' \<noteq> train_command"
    using train_command_fresh(1) by (auto simp: bootstrap_commands_def)
  have i: "with_python_env
      ''python3 -m pip install --no-cache-dir --break-system-packages -r requirements.txt''
      \<noteq> train_command"
    using train_command_fresh(2) by (auto simp: install_commands_def)
  have err: "error failed_execution \<noteq> None"
    by (simp add: failed_execution_def)
  note run = training_failure_skips_summary
    [OF mock_create [of "\<lambda>c. c = train_command" "Inr []"] host_unset_requirements
      mock_write_file mock_ensure_pip_ok [where fails = "\<lambda>c. c = train_command", OF b]
      mock_install_ok [where fails = "\<lambda>c. c = train_command", OF i]
      mock_write_file mock_run_fails [where fails = "\<lambda>c. c = train_command", OF refl] err]
  from run [THEN conjunct1, THEN run_ends] run [THEN conjunct2]
  show ?thesis
    by simp
qed

text \<open>
  C7 says that any exception of the read is caught.  The handler is \<open>except Exception\<close>:
  an exception outside \<open>Exception\<close>, as \<open>asyncio.CancelledError\<close> at the \<open>await\<close> of the read
  when the task is cancelled, is not caught.  In the run below it leaves \<open>main\<close>; no
  line is printed after the read and the sandbox is not killed: after the read the
  trace has the end of the scope only.
\<close>

theorem cancelled_read_is_not_caught:
  "fst (main (mock (\<lambda>c. False) (Inl (BaseException ''CancelledError''))) host_unset ())
     = Inl (BaseException ''CancelledError'')
   \<and> Kill \<notin> set (snd (main (mock (\<lambda>c. False) (Inl (BaseException ''CancelledError'')))
                          host_unset ()))
   \<and> take 2 (rev (snd (main (mock (\<lambda>c. False) (Inl (BaseException ''CancelledError'')))
                          host_unset ())))
       = [ScopeExit, ReadFile ''training_summary.json'']"
  by (simp add: mock_cancelled_trace [OF host_unset_requirements])

text \<open>
  C7, as the script has it.  In a run of \<open>main\<close> in which the training command has run
  without an error: if reading \<open>training_summary.json\<close> raises an instance of
  \<open>Exception\<close>, the run goes on with the line "Failed to read training summary: ..."
  (the text of the exception), the explicit kill and the end of the scope, and \<open>main\<close>
  ends as the kill does, so the exception of the read does not leave \<open>main\<close>; if the
  read returns the summary, the header line and the summary are printed instead, again
  followed by the kill and the end of the scope.
\<close>

theorem summary_read_failure_is_caught:
  assumes create: "sandbox_create k (sandbox_image h) (config_of h) (sandbox_env h)
                     \<lparr>sb = s, trace = []\<rparr> = (Inr (), wc)"
      and load: "load_requirements h = Inr requirements"
      and wreq: "files_write_file k ''requirements.txt'' requirements (scope_enter k wc)
                    = (Inr (), w1)"
      and pip: "ensure_pip k w1 = (Inr True, w2)"
      and inst: "install_requirements k w2 = (Inr True, w3)"
      and wtrain: "files_write_file k ''train.py'' (training_script h) w3 = (Inr (), w4)"
      and train: "commands_run k train_command w4 = (Inr train_exec, w5)"
      and ok: "error train_exec = None"
  shows "(files_read_file k ''training_summary.json'' (print_execution_logs train_exec w5)
            = (Inl (Exception m), w7) \<longrightarrow>
          snd (main k h s) = trace w7
            @ [Print (CHR 0x0A # ''Failed to read training summary: '' @ m), Kill, ScopeExit]
          \<and> fst (main k h s) = fst (kill_op k (sb w7)))
       \<and> (files_read_file k ''training_summary.json'' (print_execution_logs train_exec w5)
            = (Inr summary, w7) \<longrightarrow>
          snd (main k h s) = trace w7
            @ [Print (CHR 0x0A # ''=== Training summary ===''), Print summary, Kill, ScopeExit]
          \<and> fst (main k h s) = fst (kill_op k (sb w7)))"
  using ok
  by (simp add: main_def main_body_def create load wreq pip inst wtrain train
      execution_failed_def py_print_def emit_def scope_exit_def sandbox_kill_def call_eq
      split: prod.splits)

theorem summary_read_failure_is_caught_witness:
  "fst (main (mock (\<lambda>c. False) (Inl (Exception ''no such file''))) host_unset ()) = Inr ()
   \<and> take 3 (rev (snd (main (mock (\<lambda>c. False) (Inl (Exception ''no such file'')))
         host_unset ())))
       = [ScopeExit, Kill,
          Print (CHR 0x0A # ''Failed to read training summary: no such file'')]
   \<and> fst (main (mock (\<lambda>c. False) (Inr ''{}'')) host_unset ()) = Inr ()
   \<and> take 4 (rev (snd (main (mock (\<lambda>c. False) (Inr ''{}'')) host_unset ())))
       = [ScopeExit, Kill, Print ''{}'', Print (CHR 0x0A # ''=== Training summary ==='')]"
proof -
  have ok: "error ok_execution = None"
    by (simp add: ok_execution_def)
  have nf: "\<not> (\<lambda>c. False) c" for c :: string
    by simp
  note failed = summary_read_failure_is_caught
    [OF mock_create [of "\<lambda>c. False" "Inl (Exception ''no such file'')"]
      host_unset_requirements mock_write_file mock_ensure_pip_ok [OF nf] mock_install_ok [OF nf]
      mock_write_file mock_run_ok [OF nf] ok, THEN conjunct1, THEN mp, OF mock_read_file]
  note read = summary_read_failure_is_caught
    [OF mock_create [of "\<lambda>c. False" "Inr ''{}''"]
      host_unset_requirements mock_write_file mock_ensure_pip_ok [OF nf] mock_install_ok [OF nf]
      mock_write_file mock_run_ok [OF nf] ok, THEN conjunct2, THEN mp, OF mock_read_file]
  from failed read show ?thesis
    by (simp add: mock_kill)
qed

subsection \<open>The order of the writes and the bootstrap commands\<close>

text \<open>
  C8 says that both files are written before any bootstrap command is attempted.  The
  script writes \<open>train.py\<close> in line 164, after both fallback lists: in the run below a
  bootstrap command is run, \<open>train.py\<close> is written in the run, and it is not written in
  the part of the trace in front of the first bootstrap command.
\<close>

theorem train_script_written_after_bootstrap:
  "is_bootstrap_run (Run (with_python_env ''python3 -m pip --version''))
   \<and> Run (with_python_env ''python3 -m pip --version'')
       \<in> set (snd (main (mock (\<lambda>c. False) (Inr ''{}'')) host_unset ()))
   \<and> \<not> written ''train.py''
         (before_bootstrap (snd (main (mock (\<lambda>c. False) (Inr ''{}'')) host_unset ())))
   \<and> written ''train.py'' (snd (main (mock (\<lambda>c. False) (Inr ''{}'')) host_unset ()))"
  by (simp add: mock_ok_trace [OF host_unset_requirements] before_bootstrap_def written_def
      bootstrap_commands_def)

text \<open>
  C8, as the script has it.  In every run of \<open>main\<close>: if a bootstrap command is
  attempted, \<open>requirements.txt\<close> has been written before the first of them;
  \<open>train.py\<close> is never written before a bootstrap command; and when \<open>train.py\<close> is
  written, both fallback steps have succeeded: the sandbox was created, the manifest
  read and written, \<open>_ensure_pip\<close> has returned \<open>True\<close> and then
  \<open>_install_requirements\<close> has returned \<open>True\<close>, and the part of the run in front of
  the write of \<open>train.py\<close> is the run up to the return of \<open>_install_requirements\<close>.  So
  a bootstrap command and an install command have been run before that write and the
  training command has not.
\<close>

theorem manifest_before_bootstrap:
  "((\<exists>c\<in>set bootstrap_commands. Run c \<in> set (snd (main k h s))) \<longrightarrow>
      written ''requirements.txt'' (before_bootstrap (snd (main k h s))))
   \<and> \<not> written ''train.py'' (before_bootstrap (snd (main k h s)))
   \<and> (written ''train.py'' (snd (main k h s)) \<longrightarrow>
        (\<exists>wc reqs w1 w2 w3.
           sandbox_create k (sandbox_image h) (config_of h) (sandbox_env h)
             \<lparr>sb = s, trace = []\<rparr> = (Inr (), wc)
           \<and> load_requirements h = Inr reqs
           \<and> files_write_file k ''requirements.txt'' reqs (scope_enter k wc) = (Inr (), w1)
           \<and> ensure_pip k w1 = (Inr True, w2)
           \<and> install_requirements k w2 = (Inr True, w3)
           \<and> before_write ''train.py'' (snd (main k h s)) = trace w3)
      \<and> (\<exists>c\<in>set bootstrap_commands. Run c \<in> set (before_write ''train.py'' (snd (main k h s))))
      \<and> (\<exists>c\<in>set install_commands. Run c \<in> set (before_write ''train.py'' (snd (main k h s))))
      \<and> Run train_command \<notin> set (before_write ''train.py'' (snd (main k h s))))"
proof (cases rule: main_trace_cases [of k h s])
  case create_raised
  then show ?thesis by (simp add: before_bootstrap_def written_def)
next
  case load_raised
  then show ?thesis by (simp add: before_bootstrap_def written_def)
next
  case (write_raised reqs)
  then show ?thesis by (simp add: before_bootstrap_def written_def)
next
  case (bootstrap reqs pip t)
  have "before_bootstrap (snd (main k h s))
      = [Create (sandbox_image h) (config_of h) (sandbox_env h), ScopeEnter,
         WriteFile ''requirements.txt'' reqs]"
    by (simp add: bootstrap(1) before_bootstrap_def hd_bootstrap_mem)
  moreover have "\<not> written ''train.py'' (snd (main k h s))"
    by (simp add: bootstrap written_def writes_of_append
        fallback_events_writes [OF bootstrap(2)])
  ultimately show ?thesis by (simp add: written_def hd_bootstrap_mem hd_install_mem)
next
  case (install reqs pip inst t)
  have "before_bootstrap (snd (main k h s))
      = [Create (sandbox_image h) (config_of h) (sandbox_env h), ScopeEnter,
         WriteFile ''requirements.txt'' reqs]"
    by (simp add: install(1) before_bootstrap_def hd_bootstrap_mem)
  moreover have "\<not> written ''train.py'' (snd (main k h s))"
    by (simp add: install written_def writes_of_append
        fallback_events_writes [OF install(2)] fallback_events_writes [OF install(3)])
  ultimately show ?thesis by (simp add: written_def hd_bootstrap_mem hd_install_mem)
next
  case (train reqs pip inst t wc w1 w2 w3)
  have bb: "before_bootstrap (snd (main k h s))
      = [Create (sandbox_image h) (config_of h) (sandbox_env h), ScopeEnter,
         WriteFile ''requirements.txt'' reqs]"
    by (simp add: train(1) before_bootstrap_def hd_bootstrap_mem)
  have bw: "before_write ''train.py'' (snd (main k h s))
      = [Create (sandbox_image h) (config_of h) (sandbox_env h), ScopeEnter,
         WriteFile ''requirements.txt'' reqs]
        @ Run (hd bootstrap_commands) # pip @ Run (hd install_commands) # inst"
    by (simp add: train(1) before_write_def fallback_events_no_write [OF train(2)]
        fallback_events_no_write [OF train(3)])
  have "Run train_command \<notin> set pip" "Run train_command \<notin> set inst"
    using train(2,3) train_command_fresh by (auto dest: fallback_events_run)
  then have "Run train_command \<notin> set (before_write ''train.py'' (snd (main k h s)))"
    using train_command_not_head by (simp add: bw)
  moreover have "\<exists>c\<in>set bootstrap_commands.
      Run c \<in> set (before_write ''train.py'' (snd (main k h s)))"
    using hd_bootstrap_mem by (auto simp: bw)
  moreover have "\<exists>c\<in>set install_commands.
      Run c \<in> set (before_write ''train.py'' (snd (main k h s)))"
    using hd_install_mem by (auto simp: bw)
  moreover have "before_write ''train.py'' (snd (main k h s)) = trace w3"
    by (simp only: bw train(12))
  with train(7-11) have "\<exists>wc reqs w1 w2 w3.
      sandbox_create k (sandbox_image h) (config_of h) (sandbox_env h)
        \<lparr>sb = s, trace = []\<rparr> = (Inr (), wc)
      \<and> load_requirements h = Inr reqs
      \<and> files_write_file k ''requirements.txt'' reqs (scope_enter k wc) = (Inr (), w1)
      \<and> ensure_pip k w1 = (Inr True, w2)
      \<and> install_requirements k w2 = (Inr True, w3)
      \<and> before_write ''train.py'' (snd (main k h s)) = trace w3"
    by blast
  moreover have "\<not> written ''train.py'' (before_bootstrap (snd (main k h s)))"
    by (simp add: bb written_def)
  moreover have "written ''requirements.txt'' (before_bootstrap (snd (main k h s)))"
    by (simp add: bb written_def)
  ultimately show ?thesis by blast
qed

theorem manifest_before_bootstrap_witness:
  "Run (with_python_env ''python3 -m pip --version'')
      \<in> set (snd (main (mock (\<lambda>c. False) (Inr ''{}'')) host_unset ()))
   \<and> written ''requirements.txt''
        (before_bootstrap (snd (main (mock (\<lambda>c. False) (Inr ''{}'')) host_unset ())))
   \<and> written ''train.py'' (snd (main (mock (\<lambda>c. False) (Inr ''{}'')) host_unset ()))
   \<and> Run train_command
        \<notin> set (before_write ''train.py''
               (snd (main (mock (\<lambda>c. False) (Inr ''{}'')) host_unset ())))
   \<and> (\<exists>w1 w2 w3.
         ensure_pip (mock (\<lambda>c. False) (Inr ''{}'')) w1 = (Inr True, w2)
         \<and> install_requirements (mock (\<lambda>c. False) (Inr ''{}'')) w2 = (Inr True, w3)
         \<and> before_write ''train.py'' (snd (main (mock (\<lambda>c. False) (Inr ''{}'')) host_unset ()))
             = trace w3)"
proof -
  have run: "Run (with_python_env ''python3 -m pip --version'')
      \<in> set (snd (main (mock (\<lambda>c. False) (Inr ''{}'')) host_unset ()))"
    and wr: "written ''train.py'' (snd (main (mock (\<lambda>c. False) (Inr ''{}'')) host_unset ()))"
    by (simp_all add: mock_ok_trace [OF host_unset_requirements] written_def)
  have "with_python_env ''python3 -m pip --version'' \<in> set bootstrap_commands"
    by (simp add: bootstrap_commands_def)
  with run have "\<exists>c\<in>set bootstrap_commands.
      Run c \<in> set (snd (main (mock (\<lambda>c. False) (Inr ''{}'')) host_unset ()))"
    by blast
  with manifest_before_bootstrap [of "mock (\<lambda>c. False) (Inr ''{}'')" host_unset "()"] run wr
  show ?thesis by blast
qed

subsection \<open>The generated training script and \<open>RL_TIMESTEPS\<close>\<close>

text \<open>
  C9.  The text that \<open>_training_script\<close> returns is the same for every host environment
  (so for every pair of values of \<open>RL_TIMESTEPS\<close> and \<open>RL_TENSORBOARD_LOG\<close>, on every
  call); the call \<open>evaluate_policy(\<close> stands in it at exactly one place, and so does the
  call \<open>model.save(\<close>.
\<close>

theorem training_script_is_fixed:
  \<open>training_script h = training_script h'
   \<and> occurrences ''evaluate_policy('' (training_script h) = 1
   \<and> occurrences ''model.save('' (training_script h) = 1\<close>
  by (simp add: training_script_text one_evaluation one_save)

text \<open>
  C3 says that with \<open>RL_TIMESTEPS=1000\<close> the text of the generated script embeds a
  default of "1000".  It does not: on a host with \<open>RL_TIMESTEPS=1000\<close> the script that
  \<open>main\<close> writes to \<open>train.py\<close> holds no call \<open>os.getenv("RL_TIMESTEPS", "1000")\<close>.
\<close>

theorem script_ignores_host_timesteps:
  "environ host_1000 ''RL_TIMESTEPS'' = Some ''1000''
   \<and> \<not> embeds_default ''RL_TIMESTEPS'' ''1000'' (training_script host_1000)
   \<and> (''train.py'', training_script host_1000)
       \<in> set (writes_of (snd (main (mock (\<lambda>c. False) (Inr ''{}'')) host_1000 ())))"
proof (intro conjI)
  show "environ host_1000 ''RL_TIMESTEPS'' = Some ''1000''"
    by (simp add: host_1000_def)
  show "\<not> embeds_default ''RL_TIMESTEPS'' ''1000'' (training_script host_1000)"
    by (simp only: training_script_text no_default_1000 not_False_eq_True)
  show "(''train.py'', training_script host_1000)
      \<in> set (writes_of (snd (main (mock (\<lambda>c. False) (Inr ''{}'')) host_1000 ())))"
    by (simp add: mock_ok_trace [OF host_1000_requirements])
qed

text \<open>
  C3, as the script has it.  When \<open>RL_TIMESTEPS\<close> is unset, the generated script
  defaults to 5000 timesteps (it holds \<open>os.getenv("RL_TIMESTEPS", "5000")\<close>) and the first
  call of the run is \<open>Sandbox.create\<close> with the mapping \<open>RL_TIMESTEPS=5000\<close>.  When
  \<open>RL_TIMESTEPS=1000\<close>, the text of the script is the same, with the default "5000" and
  no default "1000"; the value 1000 is in the environment mapping that the first call
  of the run, \<open>Sandbox.create\<close>, is given.  What \<open>main\<close> writes to \<open>train.py\<close>, when it
  writes it, is that text.
\<close>

theorem script_defaults_to_5000:
  "(environ h ''RL_TIMESTEPS'' = None \<longrightarrow>
      embeds_default ''RL_TIMESTEPS'' ''5000'' (training_script h)
      \<and> sandbox_env h = [(''RL_TIMESTEPS'', ''5000'')]
      \<and> take 1 (snd (main k h s))
          = [Create (sandbox_image h) (config_of h) [(''RL_TIMESTEPS'', ''5000'')]])
   \<and> (environ h ''RL_TIMESTEPS'' = Some ''1000'' \<longrightarrow>
      embeds_default ''RL_TIMESTEPS'' ''5000'' (training_script h)
      \<and> \<not> embeds_default ''RL_TIMESTEPS'' ''1000'' (training_script h)
      \<and> sandbox_env h = [(''RL_TIMESTEPS'', ''1000'')]
      \<and> take 1 (snd (main k h s))
          = [Create (sandbox_image h) (config_of h) [(''RL_TIMESTEPS'', ''1000'')]])
   \<and> (\<forall>c. (''train.py'', c) \<in> set (writes_of (snd (main k h s))) \<longrightarrow> c = training_script h)"
proof -
  have "sandbox_env h = [(''RL_TIMESTEPS'', ''5000'')]" if "environ h ''RL_TIMESTEPS'' = None"
    using that by (simp add: sandbox_env_def getenv_def)
  moreover have "sandbox_env h = [(''RL_TIMESTEPS'', ''1000'')]"
    if "environ h ''RL_TIMESTEPS'' = Some ''1000''"
    using that by (simp add: sandbox_env_def getenv_def)
  moreover have "embeds_default ''RL_TIMESTEPS'' ''5000'' (training_script h)"
    and "\<not> embeds_default ''RL_TIMESTEPS'' ''1000'' (training_script h)"
    by (simp_all only: training_script_text default_5000 no_default_1000 not_False_eq_True)
  moreover note main_first_event [of k h s] train_py_content [of _ k h s]
  ultimately show ?thesis by metis
qed

theorem script_defaults_to_5000_witness:
  "environ host_unset ''RL_TIMESTEPS'' = None
   \<and> embeds_default ''RL_TIMESTEPS'' ''5000'' (training_script host_unset)
   \<and> take 1 (snd (main (mock (\<lambda>c. False) (Inr ''{}'')) host_unset ()))
       = [Create (sandbox_image host_unset) (config_of host_unset) [(''RL_TIMESTEPS'', ''5000'')]]
   \<and> environ host_1000 ''RL_TIMESTEPS'' = Some ''1000''
   \<and> embeds_default ''RL_TIMESTEPS'' ''5000'' (training_script host_1000)
   \<and> \<not> embeds_default ''RL_TIMESTEPS'' ''1000'' (training_script host_1000)
   \<and> take 1 (snd (main (mock (\<lambda>c. False) (Inr ''{}'')) host_1000 ()))
       = [Create (sandbox_image host_1000) (config_of host_1000) [(''RL_TIMESTEPS'', ''1000'')]]
   \<and> (''train.py'', training_script host_1000)
       \<in> set (writes_of (snd (main (mock (\<lambda>c. False) (Inr ''{}'')) host_1000 ())))"
proof -
  have unset: "environ host_unset ''RL_TIMESTEPS'' = None"
    by (simp add: host_unset_def)
  have set1000: "environ host_1000 ''RL_TIMESTEPS'' = Some ''1000''"
    by (simp add: host_1000_def)
  have written: "(''train.py'', training_script host_1000)
      \<in> set (writes_of (snd (main (mock (\<lambda>c. False) (Inr ''{}'')) host_1000 ())))"
    by (simp add: mock_ok_trace [OF host_1000_requirements])
  from script_defaults_to_5000 [of host_unset "mock (\<lambda>c. False) (Inr ''{}'')" "()"]
    script_defaults_to_5000 [of host_1000 "mock (\<lambda>c. False) (Inr ''{}'')" "()"]
    unset set1000 written
  show ?thesis by blast
qed

text \<open>
  C10.  The text that \<open>_training_script\<close> returns is one constant, whatever the host
  environment, and it holds the default "5000" for \<open>RL_TIMESTEPS\<close>.  The value that the
  host chose, \<open>os.getenv("RL_TIMESTEPS", "5000")\<close>, is in the environment mapping of the
  first call of the run, \<open>Sandbox.create\<close>, which is the only call of \<open>Sandbox.create\<close>.
  Nothing else that \<open>main\<close> hands to the sandbox reads \<open>RL_TIMESTEPS\<close>: setting or
  unsetting the variable on the host changes neither the image, nor the connection
  configuration, nor the manifest, nor what the body of \<open>async with\<close> does; every file
  written is \<open>requirements.txt\<close> with the manifest or \<open>train.py\<close> with the constant text,
  the only file read is \<open>training_summary.json\<close>, and the commands of the run are the
  fixed commands of the script.
\<close>

theorem timesteps_travel_in_the_environment:
  "training_script h = join_lines script_lines
   \<and> embeds_default ''RL_TIMESTEPS'' ''5000'' (training_script h)
   \<and> take 1 (snd (main k h s))
       = [Create (sandbox_image h) (config_of h)
            [(''RL_TIMESTEPS'', getenv h ''RL_TIMESTEPS'' ''5000'')]]
   \<and> filter is_create (snd (main k h s)) = take 1 (snd (main k h s))
   \<and> sandbox_image (with_timesteps h v) = sandbox_image h
   \<and> config_of (with_timesteps h v) = config_of h
   \<and> load_requirements (with_timesteps h v) = load_requirements h
   \<and> main_body k (with_timesteps h v) w = main_body k h w
   \<and> (\<forall>p c. (p, c) \<in> set (writes_of (snd (main k h s))) \<longrightarrow>
         (p = ''requirements.txt'' \<and> load_requirements h = Inr c)
         \<or> (p = ''train.py'' \<and> c = join_lines script_lines))
   \<and> set (reads_of (snd (main k h s))) \<subseteq> {''training_summary.json''}
   \<and> set (commands_of (snd (main k h s)))
       \<subseteq> set bootstrap_commands \<union> set install_commands \<union> {train_command}"
proof -
  have "take 1 (snd (main k h s))
       = [Create (sandbox_image h) (config_of h)
            [(''RL_TIMESTEPS'', getenv h ''RL_TIMESTEPS'' ''5000'')]]"
    using main_first_event [of k h s] by (simp add: sandbox_env_def)
  moreover have "\<forall>p c. (p, c) \<in> set (writes_of (snd (main k h s))) \<longrightarrow>
         (p = ''requirements.txt'' \<and> load_requirements h = Inr c)
         \<or> (p = ''train.py'' \<and> c = join_lines script_lines)"
    using main_writes [of _ _ k h s] by (simp only: training_script_text) blast
  moreover have "embeds_default ''RL_TIMESTEPS'' ''5000'' (training_script h)"
    by (simp only: training_script_text default_5000)
  moreover note training_script_text [of h] main_creates [of k h s]
    with_timesteps_others [of h v] main_body_with_timesteps [of k h v w]
    main_reads [of k h s] main_commands [of k h s]
  ultimately show ?thesis by blast
qed

theorem timesteps_travel_in_the_environment_witness:
  "take 1 (snd (main (mock (\<lambda>c. False) (Inr ''{}'')) host_1000 ()))
     = [Create (sandbox_image host_1000) (config_of host_1000) [(''RL_TIMESTEPS'', ''1000'')]]
   \<and> (''train.py'', join_lines script_lines)
       \<in> set (writes_of (snd (main (mock (\<lambda>c. False) (Inr ''{}'')) host_1000 ())))
   \<and> embeds_default ''RL_TIMESTEPS'' ''5000'' (join_lines script_lines)
   \<and> sandbox_image (with_timesteps host_1000 None) = sandbox_image host_1000
   \<and> config_of (with_timesteps host_1000 None) = config_of host_1000
   \<and> load_requirements (with_timesteps host_1000 None) = Inr ''stable-baselines3''"
proof -
  note run = timesteps_travel_in_the_environment
    [where h = host_1000 and k = "mock (\<lambda>c. False) (Inr ''{}'')" and s = "()" and v = None
      and w = "\<lparr>sb = (), trace = []\<rparr>"]
  have env: "getenv host_1000 ''RL_TIMESTEPS'' ''5000'' = ''1000''"
    by (simp add: getenv_def host_1000_def)
  have written: "(''train.py'', training_script host_1000)
      \<in> set (writes_of (snd (main (mock (\<lambda>c. False) (Inr ''{}'')) host_1000 ())))"
    by (simp add: mock_ok_trace [OF host_1000_requirements])
  from run have script_eq: "training_script host_1000 = join_lines script_lines"
    by (rule conjunct1)
  from run [THEN conjunct2, THEN conjunct1]
  have emb: "embeds_default ''RL_TIMESTEPS'' ''5000'' (join_lines script_lines)"
    by (simp only: script_eq)
  from run [THEN conjunct2, THEN conjunct2, THEN conjunct1]
  have created: "take 1 (snd (main (mock (\<lambda>c. False) (Inr ''{}'')) host_1000 ()))
     = [Create (sandbox_image host_1000) (config_of host_1000) [(''RL_TIMESTEPS'', ''1000'')]]"
    by (simp only: env)
  from written have wr: "(''train.py'', join_lines script_lines)
      \<in> set (writes_of (snd (main (mock (\<lambda>c. False) (Inr ''{}'')) host_1000 ())))"
    by (simp only: script_eq)
  from run have "sandbox_image (with_timesteps host_1000 None) = sandbox_image host_1000"
    and "config_of (with_timesteps host_1000 None) = config_of host_1000"
    and "load_requirements (with_timesteps host_1000 None) = load_requirements host_1000"
    by blast+
  with created emb wr show ?thesis
    by (simp only: host_1000_requirements)
qed

end
